theory Spec2Isabelle
  imports Complex_Main
begin

section \<open>Data model of code.py\<close>

text \<open>
  The macropad controller of \<^verbatim>\<open>code.py\<close>: twelve keys with one LED each, a rotary
  encoder with a push switch, a jog dial, and a stack of pages that interpret these
  inputs. Python objects that are shared by reference (the pages) live in a store
  indexed by references; everything a method mutates is passed in and returned.
  A Python exception is a value of type \<open>error\<close>; it ends the computation, as it ends
  the event loop task in the source.
\<close>

datatype error = AttributeError | IndexError | ValueError | TypeError

definition then_do :: "error + 'a \<Rightarrow> ('a \<Rightarrow> error + 'b) \<Rightarrow> error + 'b" where
  "then_do m f = (case m of Inl e \<Rightarrow> Inl e | Inr x \<Rightarrow> f x)"

text \<open>\<^verbatim>\<open>for i in <indices>: body\<close>, stopping at the first exception.\<close>

fun for_each :: "nat list \<Rightarrow> (nat \<Rightarrow> 's \<Rightarrow> error + 's) \<Rightarrow> 's \<Rightarrow> error + 's" where
  "for_each [] body s = Inr s"
| "for_each (i # rest) body s =
     (case body i s of Inl e \<Rightarrow> Inl e | Inr s' \<Rightarrow> for_each rest body s')"

text \<open>\<^verbatim>\<open>xs.index(x)\<close>: the first position of \<open>x\<close>, ValueError (here \<open>None\<close>) when absent.\<close>

fun list_index :: "'a list \<Rightarrow> 'a \<Rightarrow> nat option" where
  "list_index [] x = None"
| "list_index (y # ys) x = (if y = x then Some 0 else map_option Suc (list_index ys x))"

datatype LedMode = OFF | ON | BLINK | PULSE

datatype KeyMode = NONE | MOMENT | LONG_MOMENT | PRESS

type_synonym color = "int \<times> int \<times> int"

text \<open>
  class LedState (lines 56-77). \<open>event\<close> is the flag of the \<^verbatim>\<open>asyncio.Event\<close>: \<^verbatim>\<open>set()\<close>
  raises it, and the LED task that waits for it lowers it again.
\<close>

record LedState =
  on_color :: color
  off_color :: color
  mode :: LedMode
  interval :: real
  event :: bool

definition LedState_init :: LedState where
  "LedState_init =
     \<lparr>on_color = (255, 255, 255), off_color = (0, 0, 0), mode = OFF, interval = 1 / 10,
      event = False\<rparr>"

definition LedState_reset :: "LedState \<Rightarrow> LedState" where
  "LedState_reset l = l\<lparr>mode := OFF\<rparr>"

definition set_on_color :: "color \<Rightarrow> LedState \<Rightarrow> LedState" where
  "set_on_color c l = (l\<lparr>on_color := c\<rparr>)\<lparr>event := True\<rparr>"

definition set_off_color :: "color \<Rightarrow> LedState \<Rightarrow> LedState" where
  "set_off_color c l = (l\<lparr>off_color := c\<rparr>)\<lparr>event := True\<rparr>"

definition set_mode :: "LedMode \<Rightarrow> LedState \<Rightarrow> LedState" where
  "set_mode m l = (l\<lparr>mode := m\<rparr>)\<lparr>event := True\<rparr>"

text \<open>class KeyState (lines 79-87).\<close>

record KeyState =
  pressed :: bool
  press_time :: "int option"
  press_duration :: int
  release_time :: "int option"

definition KeyState_reset :: "KeyState \<Rightarrow> KeyState" where
  "KeyState_reset k =
     k\<lparr>pressed := False, press_time := None, press_duration := 0, release_time := None\<rparr>"

definition KeyState_init :: KeyState where
  "KeyState_init =
     \<lparr>pressed = False, press_time = None, press_duration = 0, release_time = None\<rparr>"

text \<open>
  The keyboard of the macropad as the source drives it: each call of
  \<^verbatim>\<open>macropad.keyboard.send\<close>, \<^verbatim>\<open>press\<close> and \<^verbatim>\<open>release_all\<close> is one entry of the
  log, in call order.
\<close>

datatype Keycode =
    Keycode_SHIFT | Keycode_LEFT_ARROW | Keycode_RIGHT_ARROW | Keycode_UP_ARROW
  | Keycode_DOWN_ARROW | Keycode_PAGE_UP | Keycode_PAGE_DOWN
  | Keycode_A | Keycode_B | Keycode_C | Keycode_V | Keycode_X
  | Keycode_ONE | Keycode_TWO | Keycode_GRAVE_ACCENT

datatype keyboard_call =
    Keyboard_send "Keycode list" | Keyboard_press "Keycode list" | Keyboard_release_all

type_synonym page_ref = nat

text \<open>
  The zero-argument callables bound to a key slot. The source binds lambda expressions;
  the ones it writes are a keyboard call or \<^verbatim>\<open>jog_dial_page.select_axis(n)\<close>.
\<close>

datatype callback = Call_keyboard keyboard_call | Call_select_axis page_ref int

text \<open>class KeySettings (lines 89-98); its colour and mode fields carry the prefix
  \<open>ks_\<close>, since \<open>LedState\<close> has fields of the same names.\<close>

record KeySettings =
  name :: string
  ks_on_color :: color
  ks_off_color :: color
  ks_mode :: KeyMode
  press_callback :: "callback option"
  release_callback :: "callback option"
  hold_callback :: "callback option"
  long_moment_time :: int

definition KeySettings_init :: "string \<Rightarrow> color \<Rightarrow> color \<Rightarrow> KeyMode \<Rightarrow> KeySettings" where
  "KeySettings_init nm on_c off_c m =
     \<lparr>name = nm, ks_on_color = on_c, ks_off_color = off_c, ks_mode = m,
      press_callback = None, release_callback = None, hold_callback = None,
      long_moment_time = 2\<rparr>"

text \<open>
  What a page puts into its display group: the title label, the label bound to
  \<^verbatim>\<open>self.selection\<close> (the same object, so its text is read from the page), and the
  3 x 4 grid of key names.
\<close>

datatype widget = TitleLabel string | SelectionLabel | GridLayout "string list"

datatype label = Label (label_text: "string option")

datatype PageClass = DisplayPage | SelectionPage | SleepPage | SimpleButtonPage | JogDialPage

text \<open>
  A page object: its Python class and the attributes of \<^verbatim>\<open>DisplayPage\<close> (lines 130-136),
  \<^verbatim>\<open>SelectionPage\<close> (\<open>selected_page\<close>, and \<open>selection\<close>, which is bound by the first
  activation only) and \<^verbatim>\<open>JogDialPage\<close> (\<open>selected_axis\<close>).
\<close>

record Page =
  page_class :: PageClass
  title :: "string option"
  key_settings :: "KeySettings list"
  main_group :: "widget list option"
  selected_page :: "page_ref option"
  selection :: "label option"
  selected_axis :: "int option"

definition Page_init :: "PageClass \<Rightarrow> string option \<Rightarrow> Page" where
  "Page_init cls t =
     \<lparr>page_class = cls, title = t,
      key_settings = replicate 12 (KeySettings_init [] (255, 255, 255) (0, 0, 0) NONE),
      main_group = None, selected_page = None, selection = None, selected_axis = None\<rparr>"

text \<open>class OverallState (lines 100-116).\<close>

record OverallState =
  last_interaction :: "int option"
  page_stack :: "page_ref list"
  selection_page :: "page_ref option"
  current_page :: "page_ref option"
  previous_page :: "page_ref option"
  led_states :: "LedState list"
  key_states :: "KeyState list"
  sleep_page :: "page_ref option"
  wake_to_page :: "page_ref option"
  sleep_time :: int

definition OverallState_init :: OverallState where
  "OverallState_init =
     \<lparr>last_interaction = None, page_stack = [], selection_page = None, current_page = None,
      previous_page = None, led_states = replicate 12 LedState_init,
      key_states = replicate 12 KeyState_init, sleep_page = None, wake_to_page = None,
      sleep_time = 60 * 15\<rparr>"

text \<open>
  Everything the methods read and write: the one \<^verbatim>\<open>OverallState\<close> that every page
  holds as \<^verbatim>\<open>self.state\<close>, the page objects, the keyboard log, and
  \<^verbatim>\<open>macropad.display.root_group\<close>, named by the page whose latest activation created
  the group on show.
\<close>

record System =
  state :: OverallState
  pages :: "page_ref \<Rightarrow> Page"
  keyboard :: "keyboard_call list"
  root_group :: "page_ref option"

section \<open>Pages\<close>

text \<open>\<^verbatim>\<open>self.state.led_states[i].<operation>\<close>\<close>

definition with_led :: "nat \<Rightarrow> (LedState \<Rightarrow> LedState) \<Rightarrow> System \<Rightarrow> error + System" where
  "with_led i f w =
     (if i < length (led_states (state w))
      then Inr (w\<lparr>state := (state w)\<lparr>led_states :=
                  (led_states (state w))[i := f (led_states (state w) ! i)]\<rparr>\<rparr>)
      else Inl IndexError)"

text \<open>\<^verbatim>\<open>self.key_settings[i]\<close>\<close>

definition key_setting :: "page_ref \<Rightarrow> nat \<Rightarrow> System \<Rightarrow> error + KeySettings" where
  "key_setting self i w =
     (if i < length (key_settings (pages w self))
      then Inr (key_settings (pages w self) ! i) else Inl IndexError)"

text \<open>A method call on an attribute that may hold \<^verbatim>\<open>None\<close>.\<close>

definition call_on :: "page_ref option \<Rightarrow> (page_ref \<Rightarrow> System \<Rightarrow> error + System) \<Rightarrow> System
    \<Rightarrow> error + System" where
  "call_on target method w =
     (case target of None \<Rightarrow> Inl AttributeError | Some p \<Rightarrow> method p w)"

text \<open>\<^verbatim>\<open>self.main_group.append(x)\<close>\<close>

definition main_group_append :: "page_ref \<Rightarrow> widget \<Rightarrow> System \<Rightarrow> error + System" where
  "main_group_append self x w =
     (case main_group (pages w self) of
        None \<Rightarrow> Inl AttributeError
      | Some g \<Rightarrow> Inr (w\<lparr>pages := (pages w)(self := (pages w self)\<lparr>main_group := Some (g @ [x])\<rparr>)\<rparr>))"

text \<open>DisplayPage.activate (lines 162-181): the body of its loop over the twelve slots,
  and the method.\<close>

definition activate_slot :: "page_ref \<Rightarrow> nat \<Rightarrow> System \<Rightarrow> error + System" where
  "activate_slot self i w =
     then_do (key_setting self i w) (\<lambda>ks.
     then_do (with_led i (set_on_color (ks_on_color ks)) w) (\<lambda>w1.
     then_do (with_led i (set_off_color (ks_off_color ks)) w1) (\<lambda>w2.
     with_led i (set_mode OFF) w2)))"

definition DisplayPage_activate :: "page_ref \<Rightarrow> System \<Rightarrow> error + System" where
  "DisplayPage_activate self w =
     then_do (for_each [0..<12] (activate_slot self) w) (\<lambda>w1.
     let w2 = w1\<lparr>pages := (pages w1)(self := (pages w1 self)\<lparr>main_group := Some []\<rparr>)\<rparr>;
         w3 = w2\<lparr>root_group := Some self\<rparr>
     in case title (pages w3 self) of
          None \<Rightarrow> Inr w3
        | Some t \<Rightarrow>
            main_group_append self
              (TitleLabel (''        '' @ t @ ''        '')) w3)"

text \<open>The grid of the twelve key names that SimpleButtonPage.activate (lines 268-281) and
  JogDialPage.activate (lines 293-308) build; slot \<open>index\<close> goes to column \<open>index mod 3\<close>
  of row \<open>index div 3\<close>, so the grid lists the names in slot order.\<close>

definition button_grid :: "page_ref \<Rightarrow> System \<Rightarrow> error + System" where
  "button_grid self w =
     then_do (for_each [0..<12] (\<lambda>j u. then_do (key_setting self j u) (\<lambda>_. Inr u)) w) (\<lambda>w1.
     main_group_append self
       (GridLayout (map (\<lambda>j. name (key_settings (pages w1 self) ! j)) [0..<12])) w1)"

definition SimpleButtonPage_activate :: "page_ref \<Rightarrow> System \<Rightarrow> error + System" where
  "SimpleButtonPage_activate self w =
     then_do (DisplayPage_activate self w) (button_grid self)"

definition JogDialPage_activate :: "page_ref \<Rightarrow> System \<Rightarrow> error + System" where
  "JogDialPage_activate self w =
     then_do (DisplayPage_activate self w) (\<lambda>w1.
     let w2 = w1\<lparr>pages := (pages w1)(self := (pages w1 self)\<lparr>selected_axis := None\<rparr>)\<rparr>
     in button_grid self w2)"

text \<open>SelectionPage.activate (lines 204-220): \<^verbatim>\<open>self.selected_page.title\<close> raises when
  no previous page is recorded.\<close>

definition SelectionPage_activate :: "page_ref \<Rightarrow> System \<Rightarrow> error + System" where
  "SelectionPage_activate self w =
     then_do (DisplayPage_activate self w) (\<lambda>w1.
     let w2 = w1\<lparr>pages := (pages w1)(self :=
                 (pages w1 self)\<lparr>selected_page := previous_page (state w1)\<rparr>)\<rparr>
     in case selected_page (pages w2 self) of
          None \<Rightarrow> Inl AttributeError
        | Some p \<Rightarrow>
            let w3 = w2\<lparr>pages := (pages w2)(self :=
                        (pages w2 self)\<lparr>selection := Some (Label (title (pages w2 p)))\<rparr>)\<rparr>
            in main_group_append self SelectionLabel w3)"

text \<open>SleepPage.activate (lines 247-248) only calls the inherited method.\<close>

definition SleepPage_activate :: "page_ref \<Rightarrow> System \<Rightarrow> error + System" where
  "SleepPage_activate self w = DisplayPage_activate self w"

text \<open>\<^verbatim>\<open>page.activate()\<close>: the method of the object's class.\<close>

definition activate :: "page_ref \<Rightarrow> System \<Rightarrow> error + System" where
  "activate self w =
     (case page_class (pages w self) of
        DisplayPage \<Rightarrow> DisplayPage_activate self w
      | SelectionPage \<Rightarrow> SelectionPage_activate self w
      | SleepPage \<Rightarrow> SleepPage_activate self w
      | SimpleButtonPage \<Rightarrow> SimpleButtonPage_activate self w
      | JogDialPage \<Rightarrow> JogDialPage_activate self w)"

text \<open>DisplayPage.deactivate (lines 183-186), inherited by every class. The garbage
  collection and the console message change nothing that the program reads.\<close>

definition deactivate :: "page_ref \<Rightarrow> System \<Rightarrow> error + System" where
  "deactivate self w =
     Inr (w\<lparr>pages := (pages w)(self := (pages w self)\<lparr>main_group := None\<rparr>)\<rparr>)"

text \<open>JogDialPage.select_axis (lines 326-350).\<close>

definition select_axis :: "page_ref \<Rightarrow> int \<Rightarrow> System \<Rightarrow> error + System" where
  "select_axis self axis w =
     (let w1 = w\<lparr>pages := (pages w)(self := (pages w self)\<lparr>selected_axis :=
                  (if Some axis = selected_axis (pages w self) then None else Some axis)\<rparr>)\<rparr>
      in
      then_do (with_led 9 (set_off_color
                 (if selected_axis (pages w1 self) = Some 0 then (255, 0, 20) else (0, 32, 32))) w1)
        (\<lambda>w2.
      then_do (with_led 10 (set_off_color
                 (if selected_axis (pages w2 self) = Some 1 then (255, 0, 20) else (0, 32, 32))) w2)
        (\<lambda>w3.
      with_led 11 (set_off_color
                 (if selected_axis (pages w3 self) = Some 2 then (255, 0, 20) else (0, 32, 32))) w3)))"

text \<open>Calling a bound callback.\<close>

fun run_callback :: "callback \<Rightarrow> System \<Rightarrow> error + System" where
  "run_callback (Call_keyboard c) w = Inr (w\<lparr>keyboard := keyboard w @ [c]\<rparr>)"
| "run_callback (Call_select_axis p axis) w = select_axis p axis w"

text \<open>\<^verbatim>\<open>if cb: cb()\<close>\<close>

definition call_if_bound :: "callback option \<Rightarrow> System \<Rightarrow> error + System" where
  "call_if_bound cb w = (case cb of None \<Rightarrow> Inr w | Some c \<Rightarrow> run_callback c w)"

text \<open>A key event of the keypad driver: the slot and whether the key went down.\<close>

datatype KeyEvent = KeyEvent (key_number: nat) (event_pressed: bool)

text \<open>DisplayPage.handle_key_event (lines 138-146), inherited by every class.\<close>

definition handle_key_event :: "page_ref \<Rightarrow> KeyEvent \<Rightarrow> System \<Rightarrow> error + System" where
  "handle_key_event self key_event w =
     then_do
       (if event_pressed key_event then
          then_do (key_setting self (key_number key_event) w) (\<lambda>ks.
            if ks_mode ks \<noteq> NONE then
              then_do (with_led (key_number key_event) (set_mode ON) w) (\<lambda>w1.
              then_do (key_setting self (key_number key_event) w1) (\<lambda>ks1.
              call_if_bound (press_callback ks1) w1))
            else Inr w)
        else Inr w)
       (\<lambda>w2.
          if \<not> event_pressed key_event then
            then_do (key_setting self (key_number key_event) w2) (\<lambda>ks2.
            then_do (call_if_bound (release_callback ks2) w2) (\<lambda>w3.
            with_led (key_number key_event) (set_mode OFF) w3))
          else Inr w2)"

text \<open>JogDialPage.handle_jog_event (lines 310-324): what one round of the loop sends,
  and the loop.\<close>

definition jog_send :: "int \<Rightarrow> int option \<Rightarrow> keyboard_call list" where
  "jog_send change_rel axis =
     (if change_rel < 0 \<and> axis = Some 0 then [Keyboard_send [Keycode_SHIFT, Keycode_LEFT_ARROW]]
      else if change_rel > 0 \<and> axis = Some 0 then [Keyboard_send [Keycode_SHIFT, Keycode_RIGHT_ARROW]]
      else if change_rel < 0 \<and> axis = Some 1 then [Keyboard_send [Keycode_SHIFT, Keycode_DOWN_ARROW]]
      else if change_rel > 0 \<and> axis = Some 1 then [Keyboard_send [Keycode_SHIFT, Keycode_UP_ARROW]]
      else if change_rel < 0 \<and> axis = Some 2 then [Keyboard_send [Keycode_SHIFT, Keycode_PAGE_DOWN]]
      else if change_rel > 0 \<and> axis = Some 2 then [Keyboard_send [Keycode_SHIFT, Keycode_PAGE_UP]]
      else [])"

definition JogDialPage_handle_jog_event :: "page_ref \<Rightarrow> int \<Rightarrow> int \<Rightarrow> System \<Rightarrow> error + System" where
  "JogDialPage_handle_jog_event self change_rel absolute_value w =
     for_each [0..<nat \<bar>change_rel\<bar>]
       (\<lambda>i u. Inr (u\<lparr>keyboard := keyboard u @ jog_send change_rel (selected_axis (pages u self))\<rparr>))
       w"

definition handle_jog_event :: "page_ref \<Rightarrow> int \<Rightarrow> int \<Rightarrow> System \<Rightarrow> error + System" where
  "handle_jog_event self change_rel absolute_value w =
     (case page_class (pages w self) of
        JogDialPage \<Rightarrow> JogDialPage_handle_jog_event self change_rel absolute_value w
      | _ \<Rightarrow> Inr w)"

text \<open>DisplayPage.handle_encoder_press (lines 151-157).\<close>

definition DisplayPage_handle_encoder_press :: "page_ref \<Rightarrow> bool \<Rightarrow> System \<Rightarrow> error + System" where
  "DisplayPage_handle_encoder_press self is_pressed w =
     (if is_pressed \<and> selection_page (state w) \<noteq> None then
        then_do (call_on (current_page (state w)) deactivate w) (\<lambda>w1.
        let w2 = w1\<lparr>state := (state w1)\<lparr>previous_page := current_page (state w1)\<rparr>\<rparr>;
            w3 = w2\<lparr>state := (state w2)\<lparr>current_page := selection_page (state w2)\<rparr>\<rparr>
        in call_on (current_page (state w3)) activate w3)
      else Inr w)"

text \<open>SelectionPage.handle_encoder_press (lines 198-202).\<close>

definition SelectionPage_handle_encoder_press :: "page_ref \<Rightarrow> bool \<Rightarrow> System \<Rightarrow> error + System" where
  "SelectionPage_handle_encoder_press self is_pressed w =
     (if is_pressed \<and> selection_page (state w) \<noteq> None then
        then_do (call_on (current_page (state w)) deactivate w) (\<lambda>w1.
        let w2 = w1\<lparr>state := (state w1)\<lparr>current_page := selected_page (pages w1 self)\<rparr>\<rparr>
        in call_on (current_page (state w2)) activate w2)
      else Inr w)"

text \<open>SelectionPage.handle_encoder_event (lines 222-236). \<open>index\<close> is a Python int: it
  may pass through \<open>-1\<close> and \<open>len\<close> before it is wrapped (lines 225-233).\<close>

definition step_index :: "int \<Rightarrow> int \<Rightarrow> int \<Rightarrow> int" where
  "step_index change_rel len index0 =
     (let index1 = (if change_rel < 0
                    then (if index0 - 1 < 0 then len - 1 else index0 - 1) else index0);
          index2 = (if change_rel > 0
                    then (if index1 + 1 \<ge> len then 0 else index1 + 1) else index1)
      in index2)"

definition SelectionPage_handle_encoder_event :: "page_ref \<Rightarrow> int \<Rightarrow> int \<Rightarrow> System
    \<Rightarrow> error + System" where
  "SelectionPage_handle_encoder_event self change_rel absolute_value w =
     (case selected_page (pages w self) of
        None \<Rightarrow> Inl ValueError
      | Some sel \<Rightarrow>
         (case list_index (page_stack (state w)) sel of
            None \<Rightarrow> Inl ValueError
          | Some i \<Rightarrow>
             let len = int (length (page_stack (state w)));
                 index = step_index change_rel len (int i)
             in if 0 \<le> index \<and> index < len then
                  let pick = page_stack (state w) ! nat index;
                      w1 = w\<lparr>pages := (pages w)(self :=
                              (pages w self)\<lparr>selected_page := Some pick\<rparr>)\<rparr>
                  in (case selection (pages w1 self) of
                        None \<Rightarrow> Inl AttributeError
                      | Some l \<Rightarrow>
                          Inr (w1\<lparr>pages := (pages w1)(self :=
                                 (pages w1 self)\<lparr>selection := Some (Label (title (pages w1 pick)))\<rparr>)\<rparr>))
                else Inl IndexError))"

text \<open>SleepPage.wake, handle_encoder_press and handle_encoder_event (lines 250-260).\<close>

definition wake :: "page_ref \<Rightarrow> System \<Rightarrow> error + System" where
  "wake self w =
     then_do (call_on (current_page (state w)) deactivate w) (\<lambda>w1.
     let w2 = w1\<lparr>state := (state w1)\<lparr>current_page := wake_to_page (state w1)\<rparr>\<rparr>
     in call_on (current_page (state w2)) activate w2)"

definition SleepPage_handle_encoder_press :: "page_ref \<Rightarrow> bool \<Rightarrow> System \<Rightarrow> error + System" where
  "SleepPage_handle_encoder_press self is_pressed w = (if is_pressed then wake self w else Inr w)"

definition SleepPage_handle_encoder_event :: "page_ref \<Rightarrow> int \<Rightarrow> int \<Rightarrow> System \<Rightarrow> error + System" where
  "SleepPage_handle_encoder_event self change_rel absolute_value w = wake self w"

text \<open>\<^verbatim>\<open>page.handle_encoder_press(pressed)\<close> and
  \<^verbatim>\<open>page.handle_encoder_event(change_rel, absolute_value)\<close>: the method of the object's
  class, the one of \<^verbatim>\<open>DisplayPage\<close> where the class does not override it.\<close>

definition handle_encoder_press :: "page_ref \<Rightarrow> bool \<Rightarrow> System \<Rightarrow> error + System" where
  "handle_encoder_press self is_pressed w =
     (case page_class (pages w self) of
        SelectionPage \<Rightarrow> SelectionPage_handle_encoder_press self is_pressed w
      | SleepPage \<Rightarrow> SleepPage_handle_encoder_press self is_pressed w
      | _ \<Rightarrow> DisplayPage_handle_encoder_press self is_pressed w)"

definition handle_encoder_event :: "page_ref \<Rightarrow> int \<Rightarrow> int \<Rightarrow> System \<Rightarrow> error + System" where
  "handle_encoder_event self change_rel absolute_value w =
     (case page_class (pages w self) of
        SelectionPage \<Rightarrow> SelectionPage_handle_encoder_event self change_rel absolute_value w
      | SleepPage \<Rightarrow> SleepPage_handle_encoder_event self change_rel absolute_value w
      | _ \<Rightarrow> Inr w)"

section \<open>The event loop\<close>

text \<open>
  What one round of the loop of \<^verbatim>\<open>event_loop_task\<close> reads from the hardware:
  \<^verbatim>\<open>time.monotonic_ns()\<close>, the debounced encoder switch, the next key event (if any),
  \<^verbatim>\<open>jog_enc.position\<close> and \<^verbatim>\<open>macropad.encoder\<close>.
\<close>

record TickInput =
  current_time :: int
  switch_pressed :: bool
  next_key_event :: "KeyEvent option"
  jog_position :: int
  encoder_position :: int

text \<open>The handler calls the loop makes on the current page.\<close>

datatype handler_call =
    Handle_encoder_press bool
  | Handle_key_event KeyEvent
  | Handle_jog_event int int
  | Handle_encoder_event int int

text \<open>The local variables of \<^verbatim>\<open>event_loop_task\<close>, and \<open>dispatched\<close>: a log, kept for
  the proofs only, of the handler calls made so far, in call order.\<close>

record LoopVars =
  last_jog_pos :: int
  last_encoder_pos :: int
  encoder_held :: bool
  dispatched :: "handler_call list"

definition touch :: "TickInput \<Rightarrow> System \<Rightarrow> System" where
  "touch inp w = w\<lparr>state := (state w)\<lparr>last_interaction := Some (current_time inp)\<rparr>\<rparr>"

definition logged :: "handler_call \<Rightarrow> LoopVars \<Rightarrow> LoopVars" where
  "logged c lv = lv\<lparr>dispatched := dispatched lv @ [c]\<rparr>"

text \<open>Lines 397-406.\<close>

definition encoder_switch_stage :: "TickInput \<Rightarrow> LoopVars \<times> System \<Rightarrow> error + LoopVars \<times> System" where
  "encoder_switch_stage inp lw =
     (case lw of (lv, w) \<Rightarrow>
        if switch_pressed inp then
          if \<not> encoder_held lv then
            then_do (call_on (current_page (state w)) (\<lambda>p. handle_encoder_press p True) w) (\<lambda>w1.
            Inr ((logged (Handle_encoder_press True) lv)\<lparr>encoder_held := True\<rparr>, touch inp w1))
          else Inr (lv, w)
        else
          then_do (call_on (current_page (state w)) (\<lambda>p. handle_encoder_press p False) w) (\<lambda>w1.
          Inr ((logged (Handle_encoder_press False) lv)\<lparr>encoder_held := False\<rparr>, w1)))"

text \<open>Lines 410-414.\<close>

definition key_stage :: "TickInput \<Rightarrow> LoopVars \<times> System \<Rightarrow> error + LoopVars \<times> System" where
  "key_stage inp lw =
     (case lw of (lv, w) \<Rightarrow>
        case next_key_event inp of
          None \<Rightarrow> Inr (lv, w)
        | Some key_event \<Rightarrow>
            then_do (call_on (current_page (state w)) (\<lambda>p. handle_key_event p key_event) w) (\<lambda>w1.
            Inr (logged (Handle_key_event key_event) lv, touch inp w1)))"

text \<open>Lines 422-427.\<close>

definition jog_stage :: "TickInput \<Rightarrow> LoopVars \<times> System \<Rightarrow> error + LoopVars \<times> System" where
  "jog_stage inp lw =
     (case lw of (lv, w) \<Rightarrow>
        let cur_jog_pos = jog_position inp in
        if cur_jog_pos \<noteq> last_jog_pos lv then
          let change_rel = cur_jog_pos - last_jog_pos lv in
          then_do (call_on (current_page (state w))
                     (\<lambda>p. handle_jog_event p change_rel cur_jog_pos) w) (\<lambda>w1.
          Inr ((logged (Handle_jog_event change_rel cur_jog_pos) lv)\<lparr>last_jog_pos := cur_jog_pos\<rparr>,
               touch inp w1))
        else Inr (lv, w))"

text \<open>Lines 431-436.\<close>

definition encoder_stage :: "TickInput \<Rightarrow> LoopVars \<times> System \<Rightarrow> error + LoopVars \<times> System" where
  "encoder_stage inp lw =
     (case lw of (lv, w) \<Rightarrow>
        let cur_encoder_pos = encoder_position inp in
        if cur_encoder_pos \<noteq> last_encoder_pos lv then
          let change_rel = cur_encoder_pos - last_encoder_pos lv in
          then_do (call_on (current_page (state w))
                     (\<lambda>p. handle_encoder_event p change_rel cur_encoder_pos) w) (\<lambda>w1.
          Inr ((logged (Handle_encoder_event change_rel cur_encoder_pos) lv)
                 \<lparr>last_encoder_pos := cur_encoder_pos\<rparr>,
               touch inp w1))
        else Inr (lv, w))"

text \<open>Lines 438-442: the idle check. \<^verbatim>\<open>and\<close> evaluates the subtraction only when the
  current page is not the sleep page.\<close>

definition idle_stage :: "TickInput \<Rightarrow> System \<Rightarrow> error + System" where
  "idle_stage inp w =
     (if current_page (state w) \<noteq> sleep_page (state w) then
        (case last_interaction (state w) of
           None \<Rightarrow> Inl TypeError
         | Some t \<Rightarrow>
             if current_time inp - t > sleep_time (state w) * 1000000000 then
               then_do (call_on (current_page (state w)) deactivate w) (\<lambda>w1.
               let w2 = w1\<lparr>state := (state w1)\<lparr>wake_to_page := current_page (state w1)\<rparr>\<rparr>;
                   w3 = w2\<lparr>state := (state w2)\<lparr>current_page := sleep_page (state w2)\<rparr>\<rparr>
               in call_on (current_page (state w3)) activate w3)
             else Inr w)
      else Inr w)"

text \<open>One round of the \<^verbatim>\<open>while True\<close> loop (lines 393-444).\<close>

definition event_loop_iteration :: "TickInput \<Rightarrow> LoopVars \<times> System \<Rightarrow> error + LoopVars \<times> System" where
  "event_loop_iteration inp lw =
     then_do (encoder_switch_stage inp lw) (\<lambda>lw1.
     then_do (key_stage inp lw1) (\<lambda>lw2.
     then_do (jog_stage inp lw2) (\<lambda>lw3.
     then_do (encoder_stage inp lw3) (\<lambda>lw4.
     then_do (idle_stage inp (snd lw4)) (\<lambda>w5. Inr (fst lw4, w5))))))"

text \<open>Lines 383-389: the locals before the loop, from the first readings.\<close>

definition event_loop_begin :: "int \<Rightarrow> int \<Rightarrow> int \<Rightarrow> System \<Rightarrow> LoopVars \<times> System" where
  "event_loop_begin now jog_pos encoder_pos w =
     (\<lparr>last_jog_pos = jog_pos, last_encoder_pos = encoder_pos, encoder_held = False,
       dispatched = []\<rparr>,
      w\<lparr>state := (state w)\<lparr>last_interaction := Some now\<rparr>\<rparr>)"

text \<open>The loop never ends by itself; it is run here over the readings of finitely many
  rounds, and stops early when a round raises.\<close>

fun event_loop :: "TickInput list \<Rightarrow> LoopVars \<times> System \<Rightarrow> error + LoopVars \<times> System" where
  "event_loop [] lw = Inr lw"
| "event_loop (inp # rest) lw =
     (case event_loop_iteration inp lw of Inl e \<Rightarrow> Inl e | Inr lw' \<Rightarrow> event_loop rest lw')"

section \<open>Start-up\<close>

text \<open>OverallState.reset (lines 118-121) and OverallState.add_page (lines 123-127).\<close>

definition reset_slot :: "nat \<Rightarrow> OverallState \<Rightarrow> error + OverallState" where
  "reset_slot i st =
     (if i < length (led_states st) \<and> i < length (key_states st)
      then Inr (st\<lparr>led_states := (led_states st)[i := LedState_reset (led_states st ! i)],
                   key_states := (key_states st)[i := KeyState_reset (key_states st ! i)]\<rparr>)
      else Inl IndexError)"

definition OverallState_reset :: "OverallState \<Rightarrow> error + OverallState" where
  "OverallState_reset st = for_each [0..<12] reset_slot st"

definition add_page :: "page_ref \<Rightarrow> System \<Rightarrow> error + System" where
  "add_page page w =
     (let w1 = w\<lparr>state := (state w)\<lparr>page_stack := page_stack (state w) @ [page]\<rparr>\<rparr>
      in if current_page (state w1) = None then
           let w2 = w1\<lparr>state := (state w1)\<lparr>current_page := Some page\<rparr>\<rparr>
           in call_on (current_page (state w2)) activate w2
         else Inr w1)"

text \<open>
  The pages that \<^verbatim>\<open>main\<close> builds (lines 446-599). \<open>key\<close> is a slot's
  \<^verbatim>\<open>KeySettings(...)\<close> with its press callback (and release callback, where the source
  binds one); \<open>configured\<close> stores the slots into a fresh page.
\<close>

definition key :: "string \<Rightarrow> color \<Rightarrow> color \<Rightarrow> callback \<Rightarrow> callback option \<Rightarrow> KeySettings" where
  "key nm on_c off_c on_press on_release =
     (KeySettings_init nm on_c off_c MOMENT)
       \<lparr>press_callback := Some on_press, release_callback := on_release\<rparr>"

definition configured :: "(nat \<times> KeySettings) list \<Rightarrow> Page \<Rightarrow> Page" where
  "configured slots p =
     p\<lparr>key_settings := fold (\<lambda>(i, ks) l. l[i := ks]) slots (key_settings p)\<rparr>"

definition shift_send :: "Keycode \<Rightarrow> callback" where
  "shift_send k = Call_keyboard (Keyboard_send [Keycode_SHIFT, k])"

definition shift_press :: "Keycode \<Rightarrow> callback" where
  "shift_press k = Call_keyboard (Keyboard_press [Keycode_SHIFT, k])"

definition job_keys :: "(nat \<times> KeySettings) list" where
  "job_keys =
     [(0, key ''Stop'' (255, 0, 0) (32, 0, 0) (shift_send Keycode_TWO) None),
      (1, key ''Pause'' (255, 0, 20) (0, 32, 32) (shift_send Keycode_ONE) None),
      (2, key ''Start'' (0, 255, 0) (0, 32, 0) (shift_send Keycode_GRAVE_ACCENT) None)]"

definition job_control_page :: Page where
  "job_control_page = configured job_keys (Page_init SimpleButtonPage (Some ''Job Control''))"

definition arrow_jog_page :: Page where
  "arrow_jog_page =
     configured
       [(3, key ''Precise'' (255, 0, 20) (32, 32, 0) (shift_send Keycode_X) None),
        (4, key ''Normal'' (255, 0, 20) (32, 32, 0) (shift_send Keycode_C) None),
        (5, key ''Rapid'' (255, 0, 20) (32, 32, 0) (shift_send Keycode_V) None),
        (6, key ''Z-'' (255, 0, 20) (32, 32, 0) (shift_send Keycode_PAGE_DOWN) None),
        (7, key ''Y+'' (255, 0, 20) (32, 32, 0) (shift_press Keycode_UP_ARROW)
              (Some (Call_keyboard Keyboard_release_all))),
        (8, key ''Z+'' (255, 0, 20) (32, 32, 0) (shift_send Keycode_PAGE_UP) None),
        (9, key ''X-'' (255, 0, 20) (32, 32, 0) (shift_press Keycode_LEFT_ARROW)
              (Some (Call_keyboard Keyboard_release_all))),
        (10, key ''Y-'' (255, 0, 20) (32, 32, 0) (shift_press Keycode_DOWN_ARROW)
              (Some (Call_keyboard Keyboard_release_all))),
        (11, key ''X+'' (255, 0, 20) (32, 32, 0) (shift_press Keycode_RIGHT_ARROW)
              (Some (Call_keyboard Keyboard_release_all)))]
       (Page_init SimpleButtonPage (Some ''Arrow Jog''))"

definition jog_dial_page :: "page_ref \<Rightarrow> Page" where
  "jog_dial_page self =
     configured
       [(3, key ''Precise'' (255, 0, 20) (32, 32, 0) (shift_send Keycode_X) None),
        (4, key ''Normal'' (255, 0, 20) (32, 32, 0) (shift_send Keycode_C) None),
        (5, key ''Rapid'' (255, 0, 20) (32, 32, 0) (shift_send Keycode_V) None),
        (9, key ''X'' (255, 0, 20) (0, 32, 32) (Call_select_axis self 0) None),
        (10, key ''Y'' (255, 0, 20) (0, 32, 32) (Call_select_axis self 1) None),
        (11, key ''Z'' (255, 0, 20) (0, 32, 32) (Call_select_axis self 2) None)]
       (Page_init JogDialPage (Some ''Dial Jog''))"

definition probe_page :: Page where
  "probe_page =
     configured
       (job_keys @
        [(4, key ''Open'' (255, 0, 20) (0, 32, 32) (Call_keyboard (Keyboard_send [Keycode_A])) None),
         (6, key ''Dia -'' (255, 0, 20) (0, 32, 32) (Call_keyboard (Keyboard_send [Keycode_A])) None),
         (8, key ''Dia +'' (255, 0, 20) (0, 32, 32) (Call_keyboard (Keyboard_send [Keycode_B])) None),
         (9, key ''Left'' (255, 0, 20) (0, 32, 32) (Call_keyboard (Keyboard_send [Keycode_A])) None),
         (10, key ''Confirm'' (255, 0, 20) (0, 32, 32) (Call_keyboard (Keyboard_send [Keycode_A])) None),
         (11, key ''Right'' (255, 0, 20) (0, 32, 32) (Call_keyboard (Keyboard_send [Keycode_B])) None)])
       (Page_init SimpleButtonPage (Some ''Probe''))"

definition rapids_page :: Page where
  "rapids_page = configured job_keys (Page_init SimpleButtonPage (Some ''Rapids''))"

text \<open>\<^verbatim>\<open>main\<close> up to the start of the tasks. The page objects get the references 0
  to 6 in the order the source creates them.\<close>

definition new_page :: "page_ref \<Rightarrow> Page \<Rightarrow> System \<Rightarrow> System" where
  "new_page r p w = w\<lparr>pages := (pages w)(r := p)\<rparr>"

definition main :: "error + System" where
  "main =
     (let w0 = \<lparr>state = OverallState_init, pages = (\<lambda>_. Page_init DisplayPage None),
                keyboard = [], root_group = None\<rparr>;
          w1 = new_page 0 (Page_init SleepPage None) w0;
          w2 = w1\<lparr>state := (state w1)\<lparr>sleep_page := Some 0\<rparr>\<rparr>;
          w3 = new_page 1 (Page_init SelectionPage (Some ''Selection'')) w2;
          w4 = w3\<lparr>state := (state w3)\<lparr>selection_page := Some 1\<rparr>\<rparr>
      in
      then_do (add_page 2 (new_page 2 job_control_page w4)) (\<lambda>w5.
      then_do (add_page 3 (new_page 3 arrow_jog_page w5)) (\<lambda>w6.
      then_do (add_page 4 (new_page 4 (jog_dial_page 4) w6)) (\<lambda>w7.
      then_do (add_page 5 (new_page 5 probe_page w7)) (\<lambda>w8.
      add_page 6 (new_page 6 rapids_page w8))))))"

section \<open>Notions used to state the properties\<close>

text \<open>The LEDs after the loop of DisplayPage.activate has run over the first \<open>n\<close>
  slots of a page with key settings \<open>ks\<close>.\<close>

definition painted :: "KeySettings list \<Rightarrow> nat \<Rightarrow> LedState list \<Rightarrow> LedState list" where
  "painted ks n leds =
     map (\<lambda>i. if i < n
              then set_mode OFF (set_off_color (ks_off_color (ks ! i))
                     (set_on_color (ks_on_color (ks ! i)) (leds ! i)))
              else leds ! i)
       [0..<length leds]"

text \<open>The group of a page right after DisplayPage.activate: its title label, if it has
  a title.\<close>

definition title_widgets :: "string option \<Rightarrow> widget list" where
  "title_widgets t = (case t of None \<Rightarrow> [] | Some x \<Rightarrow> [TitleLabel (''        '' @ x @ ''        '')])"

text \<open>The page object \<open>p\<close> after its activation in \<open>w\<close>.\<close>

definition activated_page :: "System \<Rightarrow> page_ref \<Rightarrow> Page" where
  "activated_page w p =
     (let pg = pages w p;
          g = title_widgets (title pg);
          grid = GridLayout (map (\<lambda>j. name (key_settings pg ! j)) [0..<12])
      in case page_class pg of
           DisplayPage \<Rightarrow> pg\<lparr>main_group := Some g\<rparr>
         | SleepPage \<Rightarrow> pg\<lparr>main_group := Some g\<rparr>
         | SimpleButtonPage \<Rightarrow> pg\<lparr>main_group := Some (g @ [grid])\<rparr>
         | JogDialPage \<Rightarrow> pg\<lparr>main_group := Some (g @ [grid]), selected_axis := None\<rparr>
         | SelectionPage \<Rightarrow>
             pg\<lparr>main_group := Some (g @ [SelectionLabel]),
                selected_page := previous_page (state w),
                selection := Some (Label (title (pages w (the (previous_page (state w))))))\<rparr>)"

text \<open>An LED shows a slot's settings, switched off and signalled to its task.\<close>

definition led_painted :: "KeySettings \<Rightarrow> LedState \<Rightarrow> bool" where
  "led_painted ks l \<longleftrightarrow>
     on_color l = ks_on_color ks \<and> off_color l = ks_off_color ks \<and> mode l = OFF \<and> event l"

text \<open>What an activation of page \<open>p\<close> leaves behind: its group is on the display and the
  twelve LEDs show its key settings.\<close>

definition activated :: "page_ref \<Rightarrow> System \<Rightarrow> bool" where
  "activated p w \<longleftrightarrow>
     root_group w = Some p \<and> main_group (pages w p) \<noteq> None \<and>
     (\<forall>i<12. led_painted (key_settings (pages w p) ! i) (led_states (state w) ! i))"

text \<open>What an activation of page \<open>p\<close> needs in order not to raise: twelve key settings,
  twelve LEDs, and for the selection page a recorded previous page.\<close>

definition can_activate :: "page_ref \<Rightarrow> System \<Rightarrow> bool" where
  "can_activate p w \<longleftrightarrow>
     12 \<le> length (key_settings (pages w p)) \<and> 12 \<le> length (led_states (state w)) \<and>
     (page_class (pages w p) = SelectionPage \<longrightarrow> previous_page (state w) \<noteq> None)"

text \<open>A round of the loop in which the hardware reports nothing new: no key event, both
  dials where they were, and no new press of the encoder switch.\<close>

definition quiet :: "TickInput \<Rightarrow> LoopVars \<Rightarrow> bool" where
  "quiet inp lv \<longleftrightarrow>
     next_key_event inp = None \<and> jog_position inp = last_jog_pos lv \<and>
     encoder_position inp = last_encoder_pos lv \<and> (switch_pressed inp \<longrightarrow> encoder_held lv)"

text \<open>The arguments of the \<^verbatim>\<open>handle_encoder_press\<close> calls in a stretch of the call log.\<close>

fun encoder_press_calls :: "handler_call list \<Rightarrow> bool list" where
  "encoder_press_calls [] = []"
| "encoder_press_calls (Handle_encoder_press b # cs) = b # encoder_press_calls cs"
| "encoder_press_calls (c # cs) = encoder_press_calls cs"

text \<open>The key that the jog dial sends together with SHIFT for an axis (0, 1, 2 for X, Y,
  Z) and a direction, as lines 313-324 pair them.\<close>

definition direction_key :: "int \<Rightarrow> bool \<Rightarrow> Keycode" where
  "direction_key axis forward =
     (if axis = 0 then (if forward then Keycode_RIGHT_ARROW else Keycode_LEFT_ARROW)
      else if axis = 1 then (if forward then Keycode_UP_ARROW else Keycode_DOWN_ARROW)
      else (if forward then Keycode_PAGE_UP else Keycode_PAGE_DOWN))"

text \<open>A sequence of \<^verbatim>\<open>select_axis\<close> calls on one page.\<close>

fun select_axes :: "page_ref \<Rightarrow> int list \<Rightarrow> System \<Rightarrow> error + System" where
  "select_axes self [] w = Inr w"
| "select_axes self (axis # rest) w =
     (case select_axis self axis w of Inl e \<Rightarrow> Inl e | Inr w' \<Rightarrow> select_axes self rest w')"

text \<open>The off-colour that \<^verbatim>\<open>select_axis\<close> gives the LED of an axis slot.\<close>

definition axis_color :: "int option \<Rightarrow> int \<Rightarrow> color" where
  "axis_color sel axis = (if sel = Some axis then (255, 0, 20) else (0, 32, 32))"

text \<open>led_task, lines 375-376: once the event of its LED is set, the waiting task
  clears it before it renders again.\<close>

definition led_task_clear :: "LedState \<Rightarrow> LedState" where
  "led_task_clear l = l\<lparr>event := False\<rparr>"

text \<open>The system as \<^verbatim>\<open>main\<close> hands it to the event loop, and the loop's first state
  when the clock and both dials read 0.\<close>

definition booted :: System where
  "booted = projr main"

definition loop_start :: "LoopVars \<times> System" where
  "loop_start = event_loop_begin 0 0 0 booted"

definition reading :: "int \<Rightarrow> bool \<Rightarrow> KeyEvent option \<Rightarrow> int \<Rightarrow> int \<Rightarrow> TickInput" where
  "reading now sw ev jog enc =
     \<lparr>current_time = now, switch_pressed = sw, next_key_event = ev, jog_position = jog,
      encoder_position = enc\<rparr>"

text \<open>States used as examples: the selection page opened from the first page by a press
  of the encoder; the X axis selected on the jog-dial page; a round of the loop with
  nothing new at a given time; the system put to sleep by such a round just after 900 s.\<close>

definition picking :: System where
  "picking = projr (handle_encoder_press 2 True (snd loop_start))"

definition x_selected :: System where
  "x_selected = projr (select_axis 4 0 (snd loop_start))"

definition idle_reading :: "int \<Rightarrow> TickInput" where
  "idle_reading now = reading now False None 0 0"

definition asleep :: System where
  "asleep = projr (idle_stage (idle_reading 900000000001) (snd loop_start))"

text \<open>The started system after the task of LED 3 has consumed the LED's event, and the
  started system with a release callback bound to slot 3 of the first page, a slot whose
  trigger mode is NONE.\<close>

definition led3_rendered :: System where
  "led3_rendered =
     (snd loop_start)\<lparr>state := (state (snd loop_start))\<lparr>led_states :=
        (led_states (state (snd loop_start)))
          [3 := led_task_clear (led_states (state (snd loop_start)) ! 3)]\<rparr>\<rparr>"

definition release_bound :: System where
  "release_bound =
     (snd loop_start)\<lparr>pages := (pages (snd loop_start))(2 := (pages (snd loop_start) 2)
        \<lparr>key_settings := (key_settings (pages (snd loop_start) 2))
           [3 := (KeySettings_init [] (255, 255, 255) (0, 0, 0) NONE)
                   \<lparr>release_callback := Some (Call_keyboard Keyboard_release_all)\<rparr>]\<rparr>)\<rparr>"

section \<open>Properties\<close>

subsection \<open>Sequencing and loops\<close>

lemma then_do_Inr [simp]: "then_do (Inr x) f = f x"
  by (simp add: then_do_def)

lemma then_do_Inl [simp]: "then_do (Inl e) f = Inl e"
  by (simp add: then_do_def)

lemma for_each_append:
  "for_each (xs @ ys) body s =
     (case for_each xs body s of Inl e \<Rightarrow> Inl e | Inr s' \<Rightarrow> for_each ys body s')"
  by (induction xs arbitrary: s) (auto split: sum.splits)

lemma for_each_pure: "for_each xs (\<lambda>i u. Inr (f u)) s = Inr ((f ^^ length xs) s)"
  by (induction xs arbitrary: s) (auto simp: funpow_swap1)

subsection \<open>Activation\<close>


lemma painted_0: "painted ks 0 leds = leds"
  by (simp add: painted_def map_nth)

lemma length_painted [simp]: "length (painted ks n leds) = length leds"
  by (simp add: painted_def)

lemma painted_nth:
  "i < length leds \<Longrightarrow> painted ks n leds ! i =
     (if i < n then set_mode OFF (set_off_color (ks_off_color (ks ! i))
                     (set_on_color (ks_on_color (ks ! i)) (leds ! i)))
      else leds ! i)"
  by (simp add: painted_def)

lemma painted_Suc:
  "n < length leds \<Longrightarrow>
   (painted ks n leds)[n := set_mode OFF (set_off_color (ks_off_color (ks ! n))
                     (set_on_color (ks_on_color (ks ! n)) (leds ! n)))] = painted ks (Suc n) leds"
  by (rule nth_equalityI) (auto simp: painted_nth nth_list_update)

lemma activate_slot_painted:
  assumes "n < length (key_settings (pages w self))" "n < length leds"
  shows "activate_slot self n (w\<lparr>state := (state w)\<lparr>led_states := painted (key_settings (pages w self)) n leds\<rparr>\<rparr>)
     = Inr (w\<lparr>state := (state w)\<lparr>led_states := painted (key_settings (pages w self)) (Suc n) leds\<rparr>\<rparr>)"
  using assms
  by (simp add: activate_slot_def key_setting_def with_led_def painted_nth painted_Suc[symmetric])

lemma activate_loop:
  "n \<le> length (key_settings (pages w self)) \<Longrightarrow> n \<le> length (led_states (state w)) \<Longrightarrow>
   for_each [0..<n] (activate_slot self) w =
     Inr (w\<lparr>state := (state w)\<lparr>led_states :=
            painted (key_settings (pages w self)) n (led_states (state w))\<rparr>\<rparr>)"
proof (induction n)
  case 0
  then show ?case by (simp add: painted_0)
next
  case (Suc n)
  then show ?case
    by (simp add: for_each_append activate_slot_painted)
qed


lemma for_each_skip: "(\<And>i. i \<in> set xs \<Longrightarrow> body i s = Inr s) \<Longrightarrow> for_each xs body s = Inr s"
  by (induction xs) auto

lemma DisplayPage_activate_result:
  assumes "12 \<le> length (key_settings (pages w self))" "12 \<le> length (led_states (state w))"
  shows "DisplayPage_activate self w =
     Inr (w\<lparr>state := (state w)\<lparr>led_states :=
              painted (key_settings (pages w self)) 12 (led_states (state w))\<rparr>,
            pages := (pages w)(self := (pages w self)\<lparr>main_group :=
              Some (title_widgets (title (pages w self)))\<rparr>),
            root_group := Some self\<rparr>)"
  using assms
  by (simp add: DisplayPage_activate_def activate_loop main_group_append_def title_widgets_def
      Let_def split: option.splits)

lemma button_grid_result:
  assumes "12 \<le> length (key_settings (pages w self))" "main_group (pages w self) = Some g"
  shows "button_grid self w =
     Inr (w\<lparr>pages := (pages w)(self := (pages w self)\<lparr>main_group :=
        Some (g @ [GridLayout (map (\<lambda>j. name (key_settings (pages w self) ! j)) [0..<12])])\<rparr>)\<rparr>)"
proof -
  have "for_each [0..<12] (\<lambda>j u. then_do (key_setting self j u) (\<lambda>_. Inr u)) w = Inr w"
    using assms(1) by (intro for_each_skip) (simp add: key_setting_def)
  then show ?thesis
    using assms(2) by (simp add: button_grid_def main_group_append_def)
qed

lemma activate_ok:
  assumes "can_activate p w"
  shows "\<exists>w'. activate p w = Inr w' \<and>
     state w' = (state w)\<lparr>led_states :=
        painted (key_settings (pages w p)) 12 (led_states (state w))\<rparr> \<and>
     keyboard w' = keyboard w \<and> root_group w' = Some p \<and>
     (\<forall>q. q \<noteq> p \<longrightarrow> pages w' q = pages w q) \<and>
     main_group (pages w' p) \<noteq> None \<and>
     key_settings (pages w' p) = key_settings (pages w p) \<and>
     page_class (pages w' p) = page_class (pages w p) \<and>
     title (pages w' p) = title (pages w p) \<and>
     (page_class (pages w p) = JogDialPage \<longrightarrow> selected_axis (pages w' p) = None) \<and>
     (page_class (pages w p) \<noteq> JogDialPage \<longrightarrow> selected_axis (pages w' p) = selected_axis (pages w p))"
proof (cases "page_class (pages w p)")
  case DisplayPage
  then show ?thesis using assms
    by (simp add: can_activate_def activate_def DisplayPage_activate_result)
next
  case SelectionPage
  then show ?thesis using assms
    by (auto simp add: can_activate_def activate_def SelectionPage_activate_def
        DisplayPage_activate_result main_group_append_def Let_def)
next
  case SleepPage
  then show ?thesis using assms
    by (simp add: can_activate_def activate_def SleepPage_activate_def DisplayPage_activate_result)
next
  case SimpleButtonPage
  then show ?thesis using assms
    by (simp add: can_activate_def activate_def SimpleButtonPage_activate_def
        DisplayPage_activate_result button_grid_result)
next
  case JogDialPage
  then show ?thesis using assms
    by (simp add: can_activate_def activate_def JogDialPage_activate_def
        DisplayPage_activate_result button_grid_result Let_def)
qed

lemma painted_led_painted:
  "i < n \<Longrightarrow> i < length leds \<Longrightarrow> led_painted (ks ! i) (painted ks n leds ! i)"
  by (simp add: painted_nth led_painted_def set_mode_def set_off_color_def set_on_color_def)

lemma activate_activated:
  assumes "can_activate p w" "activate p w = Inr w'"
  shows "activated p w'"
  using activate_ok[OF assms(1)] assms
  by (auto simp: activated_def can_activate_def painted_led_painted)

subsection \<open>The system that main builds\<close>


lemma configured_sel [simp]:
  "page_class (configured slots p) = page_class p"
  "title (configured slots p) = title p"
  "main_group (configured slots p) = main_group p"
  "selected_page (configured slots p) = selected_page p"
  "selection (configured slots p) = selection p"
  "selected_axis (configured slots p) = selected_axis p"
  by (simp_all add: configured_def)

lemma length_fold_update [simp]:
  "length (fold (\<lambda>(i, ks) l. l[i := ks]) slots l0) = length l0"
  by (induction slots arbitrary: l0) (auto split: prod.splits)

lemma length_configured [simp]:
  "length (key_settings (configured slots p)) = length (key_settings p)"
  by (simp add: configured_def)

lemma Page_init_sel [simp]:
  "page_class (Page_init cls t) = cls"
  "title (Page_init cls t) = t"
  "main_group (Page_init cls t) = None"
  "selected_page (Page_init cls t) = None"
  "selection (Page_init cls t) = None"
  "selected_axis (Page_init cls t) = None"
  "length (key_settings (Page_init cls t)) = 12"
  by (simp_all add: Page_init_def)

lemma main_result:
  "main = Inr
     \<lparr>state = OverallState_init\<lparr>page_stack := [2, 3, 4, 5, 6], selection_page := Some 1,
        current_page := Some 2, sleep_page := Some 0,
        led_states := painted (key_settings job_control_page) 12 (replicate 12 LedState_init)\<rparr>,
      pages = (\<lambda>_. Page_init DisplayPage None)
        (0 := Page_init SleepPage None,
         1 := Page_init SelectionPage (Some ''Selection''),
         2 := job_control_page\<lparr>main_group := Some
                [TitleLabel ''        Job Control        '',
                 GridLayout (map (\<lambda>j. name (key_settings job_control_page ! j)) [0..<12])]\<rparr>,
         3 := arrow_jog_page, 4 := jog_dial_page 4, 5 := probe_page, 6 := rapids_page),
      keyboard = [], root_group = Some 2\<rparr>"
  by (simp add: main_def add_page_def new_page_def call_on_def Let_def activate_def
      SimpleButtonPage_activate_def DisplayPage_activate_result button_grid_result
      job_control_page_def arrow_jog_page_def jog_dial_page_def probe_page_def rapids_page_def
      OverallState_init_def title_widgets_def)


lemma booted_eq:
  "booted =
     \<lparr>state = OverallState_init\<lparr>page_stack := [2, 3, 4, 5, 6], selection_page := Some 1,
        current_page := Some 2, sleep_page := Some 0,
        led_states := painted (key_settings job_control_page) 12 (replicate 12 LedState_init)\<rparr>,
      pages = (\<lambda>_. Page_init DisplayPage None)
        (0 := Page_init SleepPage None,
         1 := Page_init SelectionPage (Some ''Selection''),
         2 := job_control_page\<lparr>main_group := Some
                [TitleLabel ''        Job Control        '',
                 GridLayout (map (\<lambda>j. name (key_settings job_control_page ! j)) [0..<12])]\<rparr>,
         3 := arrow_jog_page, 4 := jog_dial_page 4, 5 := probe_page, 6 := rapids_page),
      keyboard = [], root_group = Some 2\<rparr>"
  by (simp add: booted_def main_result)

subsection \<open>LedState\<close>

lemma setters_signal:
  "event (set_on_color c l)" "event (set_off_color c l)" "event (set_mode m l)"
  by (simp_all add: set_on_color_def set_off_color_def set_mode_def)

lemma reset_keeps_event: "event (LedState_reset l) = event l"
  by (simp add: LedState_reset_def)

text \<open>
  Claim C7. Every LedState operation that changes a colour or the mode is claimed to set
  the event in the same operation, \<^verbatim>\<open>reset\<close> included. The three setters do
  (\<open>setters_signal\<close>), but \<^verbatim>\<open>reset\<close> (lines 64-65) writes the mode and leaves the event
  as it was: on an LED that is ON and whose task has consumed the event, \<^verbatim>\<open>reset\<close>
  switches the mode to OFF and the event stays down, whereas \<^verbatim>\<open>set_mode(OFF)\<close> raises it.
\<close>

theorem reset_changes_mode_without_signal:
  "mode (LedState_init\<lparr>mode := ON\<rparr>) = ON \<and>
   mode (LedState_reset (LedState_init\<lparr>mode := ON\<rparr>)) = OFF \<and>
   \<not> event (LedState_reset (LedState_init\<lparr>mode := ON\<rparr>)) \<and>
   event (set_mode OFF (LedState_init\<lparr>mode := ON\<rparr>))"
  by (simp add: LedState_reset_def LedState_init_def set_mode_def)

subsection \<open>The jog dial\<close>

lemma concat_replicate_comm: "concat (replicate n x) @ x = x @ concat (replicate n x)"
  by (induction n) simp_all

lemma jog_loop:
  "((\<lambda>u. u\<lparr>keyboard := keyboard u @ jog_send d (selected_axis (pages u self))\<rparr>) ^^ n) w =
     w\<lparr>keyboard := keyboard w @ concat (replicate n (jog_send d (selected_axis (pages w self))))\<rparr>"
  by (induction n) (simp_all add: concat_replicate_comm)

lemma JogDialPage_handle_jog_event_result:
  "JogDialPage_handle_jog_event self d pos w =
     Inr (w\<lparr>keyboard := keyboard w @
            concat (replicate (nat \<bar>d\<bar>) (jog_send d (selected_axis (pages w self))))\<rparr>)"
  by (simp add: JogDialPage_handle_jog_event_def for_each_pure jog_loop)

lemma concat_replicate_single: "concat (replicate n [x]) = replicate n x"
  by (induction n) simp_all

lemma concat_replicate_Nil: "concat (replicate n []) = []"
  by (induction n) simp_all

lemma jog_send_axis:
  "axis \<in> {0, 1, 2} \<Longrightarrow> d \<noteq> 0 \<Longrightarrow>
   jog_send d (Some axis) = [Keyboard_send [Keycode_SHIFT, direction_key axis (0 < d)]]"
  by (auto simp: jog_send_def direction_key_def)

text \<open>
  Claim C8. A jog event with relative delta \<open>d\<close> on the jog-dial page sends nothing when
  no axis is selected; when axis 0, 1 or 2 (X, Y, Z) is selected it sends exactly \<open>|d|\<close>
  times the one key combination that belongs to the axis and the sign of \<open>d\<close>, and the
  six combinations of the three axes and two directions are pairwise different.
\<close>

theorem jog_rotation_sends_one_action_per_unit:
  assumes "page_class (pages w self) = JogDialPage"
  shows "(selected_axis (pages w self) = None \<longrightarrow> handle_jog_event self d pos w = Inr w) \<and>
         (\<forall>axis\<in>{0, 1, 2}. selected_axis (pages w self) = Some axis \<longrightarrow>
            handle_jog_event self d pos w =
              Inr (w\<lparr>keyboard := keyboard w @
                     replicate (nat \<bar>d\<bar>)
                       (Keyboard_send [Keycode_SHIFT, direction_key axis (0 < d)])\<rparr>)) \<and>
         distinct (concat (map (\<lambda>axis. map (direction_key axis) [False, True]) [0, 1, 2]))"
proof (intro conjI impI ballI)
  assume "selected_axis (pages w self) = None"
  then show "handle_jog_event self d pos w = Inr w"
    using assms
    by (simp add: handle_jog_event_def JogDialPage_handle_jog_event_result jog_send_def
        concat_replicate_Nil)
next
  fix axis :: int
  assume ax: "axis \<in> {0, 1, 2}" and sel: "selected_axis (pages w self) = Some axis"
  show "handle_jog_event self d pos w =
          Inr (w\<lparr>keyboard := keyboard w @
                 replicate (nat \<bar>d\<bar>) (Keyboard_send [Keycode_SHIFT, direction_key axis (0 < d)])\<rparr>)"
  proof (cases "d = 0")
    case True
    then show ?thesis
      using assms by (simp add: handle_jog_event_def JogDialPage_handle_jog_event_result)
  next
    case False
    then show ?thesis
      using assms sel jog_send_axis[OF ax False]
      by (simp add: handle_jog_event_def JogDialPage_handle_jog_event_result
          concat_replicate_single)
  qed
next
  show "distinct (concat (map (\<lambda>axis. map (direction_key axis) [False, True]) [0, 1, 2]))"
    by (simp add: direction_key_def)
qed

lemma select_axis_result:
  assumes "12 \<le> length (led_states (state w))"
  shows "select_axis self axis w =
     (let sel = (if Some axis = selected_axis (pages w self) then None else Some axis) in
      Inr (w\<lparr>pages := (pages w)(self := (pages w self)\<lparr>selected_axis := sel\<rparr>),
             state := (state w)\<lparr>led_states := (led_states (state w))
               [9 := set_off_color (axis_color sel 0) (led_states (state w) ! 9),
                10 := set_off_color (axis_color sel 1) (led_states (state w) ! 10),
                11 := set_off_color (axis_color sel 2) (led_states (state w) ! 11)]\<rparr>\<rparr>))"
  using assms
  by (simp add: select_axis_def with_led_def axis_color_def Let_def)

lemma select_axis_ok:
  assumes "12 \<le> length (led_states (state w))"
  shows "\<exists>w1. select_axis self axis w = Inr w1 \<and>
           length (led_states (state w1)) = length (led_states (state w)) \<and>
           selected_axis (pages w1 self) =
             (if selected_axis (pages w self) = Some axis then None else Some axis) \<and>
           (\<forall>k\<in>{0, 1, 2}. off_color (led_states (state w1) ! nat (9 + k)) =
                            (if selected_axis (pages w1 self) = Some k
                             then (255, 0, 20) else (0, 32, 32)))"
  using assms
  by (auto simp add: select_axis_result Let_def axis_color_def set_off_color_def)

lemma select_axes_invariant:
  assumes "12 \<le> length (led_states (state w))" "set axes \<subseteq> {0, 1, 2}"
    "selected_axis (pages w self) \<in> {None, Some 0, Some 1, Some 2}"
  shows "\<exists>w'. select_axes self axes w = Inr w' \<and> 12 \<le> length (led_states (state w')) \<and>
           selected_axis (pages w' self) \<in> {None, Some 0, Some 1, Some 2}"
  using assms
proof (induction axes arbitrary: w)
  case Nil
  then show ?case by simp
next
  case (Cons a axes)
  obtain w1 where w1: "select_axis self a w = Inr w1"
      "length (led_states (state w1)) = length (led_states (state w))"
      "selected_axis (pages w1 self) =
         (if selected_axis (pages w self) = Some a then None else Some a)"
    using select_axis_ok[OF Cons.prems(1)] by blast
  have "12 \<le> length (led_states (state w1))"
    using w1(2) Cons.prems(1) by simp
  moreover have "set axes \<subseteq> {0, 1, 2}"
    using Cons.prems(2) by simp
  moreover have "selected_axis (pages w1 self) \<in> {None, Some 0, Some 1, Some 2}"
    using w1(3) Cons.prems(2) by auto
  ultimately obtain w' where "select_axes self axes w1 = Inr w'"
      "12 \<le> length (led_states (state w'))"
      "selected_axis (pages w' self) \<in> {None, Some 0, Some 1, Some 2}"
    using Cons.IH[of w1] by blast
  with w1(1) show ?case by simp
qed

lemma select_axes_snoc:
  "select_axes self (axes @ [axis]) w =
     (case select_axes self axes w of Inl e \<Rightarrow> Inl e | Inr w' \<Rightarrow> select_axis self axis w')"
  by (induction axes arbitrary: w) (auto split: sum.splits)

text \<open>
  Claim C9. After any sequence \<open>axes\<close> of \<^verbatim>\<open>select_axis\<close> calls with axes among X, Y, Z
  the page has none or exactly one of the three axes selected; one more call clears the
  selection when it names the selected axis and otherwise selects the axis it names; and
  afterwards the off-colours of the LEDs 9, 10, 11 are the highlight (255, 0, 20) for the
  selected axis and the neutral (0, 32, 32) for the others. The calls do not raise.
\<close>

theorem select_axis_is_exclusive_toggle:
  assumes "12 \<le> length (led_states (state w))"
    and "set axes \<subseteq> {0, 1, 2}" and "axis \<in> {0, 1, 2}"
    and "selected_axis (pages w self) \<in> {None, Some 0, Some 1, Some 2}"
  shows "\<exists>w1 w2. select_axes self axes w = Inr w1 \<and> select_axis self axis w1 = Inr w2 \<and>
           select_axes self (axes @ [axis]) w = Inr w2 \<and>
           selected_axis (pages w1 self) \<in> {None, Some 0, Some 1, Some 2} \<and>
           selected_axis (pages w2 self) =
             (if selected_axis (pages w1 self) = Some axis then None else Some axis) \<and>
           (\<forall>k\<in>{0, 1, 2}. off_color (led_states (state w2) ! nat (9 + k)) =
                            (if selected_axis (pages w2 self) = Some k
                             then (255, 0, 20) else (0, 32, 32)))"
proof -
  obtain w1 where w1: "select_axes self axes w = Inr w1"
      "12 \<le> length (led_states (state w1))"
      "selected_axis (pages w1 self) \<in> {None, Some 0, Some 1, Some 2}"
    using select_axes_invariant[OF assms(1,2,4)] by blast
  obtain w2 where w2: "select_axis self axis w1 = Inr w2"
      "selected_axis (pages w2 self) =
         (if selected_axis (pages w1 self) = Some axis then None else Some axis)"
      "\<forall>k\<in>{0, 1, 2}. off_color (led_states (state w2) ! nat (9 + k)) =
          (if selected_axis (pages w2 self) = Some k then (255, 0, 20) else (0, 32, 32))"
    using select_axis_ok[OF w1(2)] by blast
  have "select_axes self (axes @ [axis]) w = Inr w2"
    using w1(1) w2(1) by (simp add: select_axes_snoc)
  with w1 w2 show ?thesis by blast
qed

text \<open>
  Claim C10. Every activation of the jog-dial page sets \<open>selected_axis\<close> to none, whatever
  it was before, so that right after it a jog rotation of any delta sends nothing and
  leaves the system as it is.
\<close>

theorem jog_dial_activation_clears_axis:
  assumes "page_class (pages w p) = JogDialPage" and "can_activate p w"
  shows "\<exists>w'. activate p w = Inr w' \<and> selected_axis (pages w' p) = None \<and>
           (\<forall>d pos. handle_jog_event p d pos w' = Inr w')"
proof -
  obtain w' where w': "activate p w = Inr w'" "selected_axis (pages w' p) = None"
      "page_class (pages w' p) = JogDialPage"
    using activate_ok[OF assms(2)] assms(1) by auto
  have "handle_jog_event p d pos w' = Inr w'" for d pos
    using w'(2,3)
    by (simp add: handle_jog_event_def JogDialPage_handle_jog_event_result jog_send_def
        concat_replicate_Nil)
  with w' show ?thesis by blast
qed


lemma activate_result:
  assumes "can_activate p w"
  shows "activate p w =
     Inr (w\<lparr>state := (state w)\<lparr>led_states :=
              painted (key_settings (pages w p)) 12 (led_states (state w))\<rparr>,
            pages := (pages w)(p := activated_page w p),
            root_group := Some p\<rparr>)"
proof (cases "page_class (pages w p)")
  case DisplayPage
  then show ?thesis using assms
    by (simp add: can_activate_def activate_def DisplayPage_activate_result activated_page_def
        Let_def)
next
  case SelectionPage
  then obtain r where "previous_page (state w) = Some r"
    using assms by (auto simp: can_activate_def)
  with SelectionPage show ?thesis using assms
    by (cases "r = p")
      (auto simp add: can_activate_def activate_def SelectionPage_activate_def
        DisplayPage_activate_result main_group_append_def Let_def activated_page_def
        intro!: System.equality Page.equality)
next
  case SleepPage
  then show ?thesis using assms
    by (simp add: can_activate_def activate_def SleepPage_activate_def
        DisplayPage_activate_result activated_page_def Let_def)
next
  case SimpleButtonPage
  then show ?thesis using assms
    by (simp add: can_activate_def activate_def SimpleButtonPage_activate_def
        DisplayPage_activate_result button_grid_result activated_page_def Let_def)
next
  case JogDialPage
  then show ?thesis using assms
    by (auto simp add: can_activate_def activate_def JogDialPage_activate_def
        DisplayPage_activate_result button_grid_result Let_def activated_page_def
        intro!: System.equality Page.equality)
qed

subsection \<open>The selection page\<close>

lemma list_index_Some:
  "list_index xs x = Some i \<Longrightarrow> i < length xs \<and> xs ! i = x"
  by (induction xs arbitrary: i) (auto split: if_splits)

lemma list_index_distinct:
  "distinct xs \<Longrightarrow> j < length xs \<Longrightarrow> list_index xs (xs ! j) = Some j"
proof (induction xs arbitrary: j)
  case Nil
  then show ?case by simp
next
  case (Cons a xs)
  then show ?case by (cases j) auto
qed

lemma step_index_mod:
  assumes "i < n" "d \<noteq> 0"
  shows "step_index d (int n) (int i) = int (if 0 < d then (i + 1) mod n else (i + n - 1) mod n)"
proof (cases "0 < d")
  case True
  then show ?thesis using assms by (auto simp: step_index_def Let_def mod_Suc)
next
  case False
  with assms(2) have neg: "d < 0" by simp
  show ?thesis
  proof (cases "i = 0")
    case True
    then show ?thesis using neg assms by (simp add: step_index_def Let_def of_nat_diff)
  next
    case False
    then have "i + n - 1 = (i - 1) + n" by simp
    then have "(i + n - 1) mod n = (i - 1) mod n"
      by (simp only: mod_add_self2)
    then have "(i + n - 1) mod n = i - 1"
      using assms(1) by simp
    then show ?thesis using neg assms False by (simp add: step_index_def Let_def of_nat_diff)
  qed
qed

text \<open>
  Claim C3. On the selection page, with the tentative pick at its (first) position \<open>i\<close> of
  the non-empty page stack, one encoder event with a delta other than 0 moves the pick to
  position \<open>i + 1\<close> (for a positive delta) or \<open>i - 1\<close> (for a negative one) modulo the
  length of the stack, whatever the size of the delta; the label shows the title of the
  new pick and nothing else changes. Where the stack holds no page twice, the new pick is
  at exactly that position.
\<close>

theorem selection_rotation_moves_one_index:
  assumes "page_class (pages w self) = SelectionPage"
    and "selected_page (pages w self) = Some sel"
    and "list_index (page_stack (state w)) sel = Some i"
    and "selection (pages w self) \<noteq> None"
    and "d \<noteq> 0"
  shows "\<exists>w'. handle_encoder_event self d pos w = Inr w' \<and>
     (let n = length (page_stack (state w));
          j = (if 0 < d then (i + 1) mod n else (i + n - 1) mod n);
          pick = page_stack (state w) ! j
      in j < n \<and> selected_page (pages w' self) = Some pick \<and>
         selection (pages w' self) = Some (Label (title (pages w' pick))) \<and>
         state w' = state w \<and>
         (distinct (page_stack (state w)) \<longrightarrow> list_index (page_stack (state w')) pick = Some j))"
proof -
  let ?n = "length (page_stack (state w))"
  let ?j = "if 0 < d then (i + 1) mod ?n else (i + ?n - 1) mod ?n"
  have i: "i < ?n"
    using list_index_Some[OF assms(3)] by simp
  then have "0 < ?n"
    by (cases "page_stack (state w)") simp_all
  then have j: "?j < ?n"
    by simp
  obtain l where l: "selection (pages w self) = Some l"
    using assms(4) by auto
  have idx: "step_index d (int ?n) (int i) = int ?j"
    using step_index_mod[OF i assms(5)] .
  have run: "handle_encoder_event self d pos w =
      Inr (w\<lparr>pages := (pages w)(self := (pages w self)
             \<lparr>selected_page := Some (page_stack (state w) ! ?j),
              selection := Some (Label (title (pages w (page_stack (state w) ! ?j))))\<rparr>)\<rparr>)"
    using assms(1,2,3) l j
    by (simp add: handle_encoder_event_def SelectionPage_handle_encoder_event_def idx Let_def
        del: of_nat_add)
  show ?thesis
    unfolding run using j by (auto simp: Let_def list_index_distinct)
qed


text \<open>
  Claim C4. When the selection page is the current page, an encoder press deactivates the
  selection page, makes the tentative pick the current page and activates it.
\<close>

theorem selection_press_commits_pick:
  assumes "current_page (state w) = Some sp"
    and "selection_page (state w) = Some sp"
    and "page_class (pages w sp) = SelectionPage"
    and "selected_page (pages w sp) = Some q"
    and "q \<noteq> sp"
    and "can_activate q w"
  shows "\<exists>w'. handle_encoder_press sp True w = Inr w' \<and> current_page (state w') = Some q \<and>
           main_group (pages w' sp) = None \<and> activated q w'"
proof -
  let ?w2 = "w\<lparr>pages := (pages w)(sp := (pages w sp)\<lparr>main_group := None\<rparr>),
               state := (state w)\<lparr>current_page := Some q\<rparr>\<rparr>"
  have run: "handle_encoder_press sp True w = activate q ?w2"
    using assms(1-4)
    by (simp add: handle_encoder_press_def SelectionPage_handle_encoder_press_def call_on_def
        deactivate_def Let_def)
  have can: "can_activate q ?w2"
    using assms(5,6) by (simp add: can_activate_def)
  obtain w' where w': "activate q ?w2 = Inr w'"
      "state w' = (state ?w2)\<lparr>led_states :=
         painted (key_settings (pages ?w2 q)) 12 (led_states (state ?w2))\<rparr>"
      "\<forall>r. r \<noteq> q \<longrightarrow> pages w' r = pages ?w2 r"
    using activate_ok[OF can] by blast
  have "current_page (state w') = Some q"
    using w'(2) by simp
  moreover have "main_group (pages w' sp) = None"
    using w'(3) assms(5) by simp
  moreover have "activated q w'"
    using can w'(1) by (rule activate_activated)
  ultimately show ?thesis
    using run w'(1) by simp
qed

subsection \<open>Key events\<close>

text \<open>
  Claim C6, as amended. For a slot whose trigger mode is NONE a press changes nothing:
  no LedState, no callback. A release is handled as for every other slot: the release
  callback is called if one is bound, and the slot's LED is set to mode OFF with its
  event raised; nothing else happens, so no press or hold callback is called.
\<close>

theorem none_slot_ignores_press_only:
  assumes "k < length (key_settings (pages w self))"
    and "ks_mode (key_settings (pages w self) ! k) = NONE"
    and "k < length (led_states (state w))"
  shows "handle_key_event self (KeyEvent k True) w = Inr w \<and>
     (release_callback (key_settings (pages w self) ! k) = None \<longrightarrow>
        handle_key_event self (KeyEvent k False) w =
          Inr (w\<lparr>state := (state w)\<lparr>led_states :=
                 (led_states (state w))[k := set_mode OFF (led_states (state w) ! k)]\<rparr>\<rparr>)) \<and>
     (\<forall>c. release_callback (key_settings (pages w self) ! k) = Some (Call_keyboard c) \<longrightarrow>
        handle_key_event self (KeyEvent k False) w =
          Inr (w\<lparr>keyboard := keyboard w @ [c],
                 state := (state w)\<lparr>led_states :=
                   (led_states (state w))[k := set_mode OFF (led_states (state w) ! k)]\<rparr>\<rparr>)) \<and>
     (\<forall>cb. release_callback (key_settings (pages w self) ! k) = Some cb \<longrightarrow>
        handle_key_event self (KeyEvent k False) w =
          then_do (run_callback cb w) (with_led k (set_mode OFF)))"
  using assms
  by (simp add: handle_key_event_def key_setting_def with_led_def call_if_bound_def)

subsection \<open>The event loop\<close>

lemma release_is_ignored: "handle_encoder_press p False w = Inr w"
  by (simp add: handle_encoder_press_def DisplayPage_handle_encoder_press_def
      SelectionPage_handle_encoder_press_def SleepPage_handle_encoder_press_def
      split: PageClass.splits)

lemma encoder_press_calls_append:
  "encoder_press_calls (xs @ ys) = encoder_press_calls xs @ encoder_press_calls ys"
  by (induction xs rule: encoder_press_calls.induct) simp_all

lemma encoder_switch_stage_log:
  assumes "encoder_switch_stage inp (lv, w) = Inr (lv', w')"
  shows "\<exists>cs. dispatched lv' = dispatched lv @ cs \<and>
     encoder_press_calls cs =
       (if switch_pressed inp then (if encoder_held lv then [] else [True]) else [False]) \<and>
     encoder_held lv' = switch_pressed inp"
  using assms
  by (auto simp: encoder_switch_stage_def logged_def then_do_def split: if_splits sum.splits)

lemma key_stage_log:
  assumes "key_stage inp (lv, w) = Inr (lv', w')"
  shows "\<exists>cs. dispatched lv' = dispatched lv @ cs \<and> encoder_press_calls cs = [] \<and>
     encoder_held lv' = encoder_held lv"
  using assms
  by (auto simp: key_stage_def logged_def then_do_def split: option.splits sum.splits)

lemma jog_stage_log:
  assumes "jog_stage inp (lv, w) = Inr (lv', w')"
  shows "\<exists>cs. dispatched lv' = dispatched lv @ cs \<and> encoder_press_calls cs = [] \<and>
     encoder_held lv' = encoder_held lv"
  using assms
  by (auto simp: jog_stage_def logged_def then_do_def Let_def split: if_splits sum.splits)

lemma encoder_stage_log:
  assumes "encoder_stage inp (lv, w) = Inr (lv', w')"
  shows "\<exists>cs. dispatched lv' = dispatched lv @ cs \<and> encoder_press_calls cs = [] \<and>
     encoder_held lv' = encoder_held lv"
  using assms
  by (auto simp: encoder_stage_def logged_def then_do_def Let_def split: if_splits sum.splits)

lemma event_loop_iteration_stages:
  assumes "event_loop_iteration inp lw = Inr (lv', w')"
  shows "\<exists>lv1 w1 lv2 w2 lv3 w3 w4.
     encoder_switch_stage inp lw = Inr (lv1, w1) \<and> key_stage inp (lv1, w1) = Inr (lv2, w2) \<and>
     jog_stage inp (lv2, w2) = Inr (lv3, w3) \<and> encoder_stage inp (lv3, w3) = Inr (lv', w4) \<and>
     idle_stage inp w4 = Inr w'"
  using assms
  by (auto simp: event_loop_iteration_def then_do_def split: sum.splits)

text \<open>
  Claim C5, as amended. \<^verbatim>\<open>handle_encoder_press(True)\<close> is edge-triggered: in a round in
  which the switch reads pressed and the held flag is already set, the switch stage calls
  nothing and changes nothing. In every round that completes, the
  \<^verbatim>\<open>handle_encoder_press\<close> calls are: one call with \<open>True\<close> when the switch reads pressed
  and the flag was clear; none when it reads pressed and the flag was set; one call with
  \<open>False\<close> whenever the switch reads not pressed, whether the flag was set or not. The
  flag ends the round equal to the reading.
\<close>

theorem encoder_press_is_edge_triggered_release_is_not:
  shows "(switch_pressed inp \<and> encoder_held lv \<longrightarrow>
            encoder_switch_stage inp (lv, w) = Inr (lv, w)) \<and>
         (\<forall>lv' w'. event_loop_iteration inp (lv, w) = Inr (lv', w') \<longrightarrow>
            (\<exists>cs. dispatched lv' = dispatched lv @ cs \<and>
               encoder_press_calls cs =
                 (if switch_pressed inp then (if encoder_held lv then [] else [True])
                  else [False]) \<and>
               encoder_held lv' = switch_pressed inp))"
proof (intro conjI allI impI)
  assume "switch_pressed inp \<and> encoder_held lv"
  then show "encoder_switch_stage inp (lv, w) = Inr (lv, w)"
    by (simp add: encoder_switch_stage_def)
next
  fix lv' w'
  assume "event_loop_iteration inp (lv, w) = Inr (lv', w')"
  then obtain lv1 w1 lv2 w2 lv3 w3 w4 where
    s: "encoder_switch_stage inp (lv, w) = Inr (lv1, w1)" "key_stage inp (lv1, w1) = Inr (lv2, w2)"
      "jog_stage inp (lv2, w2) = Inr (lv3, w3)" "encoder_stage inp (lv3, w3) = Inr (lv', w4)"
    using event_loop_iteration_stages by blast
  from encoder_switch_stage_log[OF s(1)] key_stage_log[OF s(2)] jog_stage_log[OF s(3)]
    encoder_stage_log[OF s(4)]
  obtain c1 c2 c3 c4 where
    c: "dispatched lv1 = dispatched lv @ c1" "dispatched lv2 = dispatched lv1 @ c2"
       "dispatched lv3 = dispatched lv2 @ c3" "dispatched lv' = dispatched lv3 @ c4"
       "encoder_press_calls c1 =
          (if switch_pressed inp then (if encoder_held lv then [] else [True]) else [False])"
       "encoder_press_calls c2 = []" "encoder_press_calls c3 = []" "encoder_press_calls c4 = []"
       "encoder_held lv1 = switch_pressed inp" "encoder_held lv2 = encoder_held lv1"
       "encoder_held lv3 = encoder_held lv2" "encoder_held lv' = encoder_held lv3"
    by blast
  have "dispatched lv' = dispatched lv @ (c1 @ c2 @ c3 @ c4)"
    using c(1-4) by simp
  moreover have "encoder_press_calls (c1 @ c2 @ c3 @ c4) =
      (if switch_pressed inp then (if encoder_held lv then [] else [True]) else [False])"
    using c(5-8) by (simp add: encoder_press_calls_append)
  moreover have "encoder_held lv' = switch_pressed inp"
    using c(9-12) by simp
  ultimately show "\<exists>cs. dispatched lv' = dispatched lv @ cs \<and>
      encoder_press_calls cs =
        (if switch_pressed inp then (if encoder_held lv then [] else [True]) else [False]) \<and>
      encoder_held lv' = switch_pressed inp"
    by blast
qed


lemma logged_sel [simp]:
  "last_jog_pos (logged c lv) = last_jog_pos lv"
  "last_encoder_pos (logged c lv) = last_encoder_pos lv"
  "encoder_held (logged c lv) = encoder_held lv"
  "dispatched (logged c lv) = dispatched lv @ [c]"
  by (simp_all add: logged_def)

lemma quiet_forwarding:
  assumes "quiet inp lv" "current_page (state w) = Some p"
  shows "event_loop_iteration inp (lv, w) =
     then_do (idle_stage inp w) (\<lambda>w5.
       Inr (if switch_pressed inp then lv
            else (logged (Handle_encoder_press False) lv)\<lparr>encoder_held := False\<rparr>, w5))"
  using assms
  by (simp add: event_loop_iteration_def encoder_switch_stage_def key_stage_def jog_stage_def
      encoder_stage_def quiet_def call_on_def release_is_ignored Let_def)

lemma idle_stage_waits:
  assumes "last_interaction (state w) = Some t"
    "current_time inp - t \<le> sleep_time (state w) * 1000000000"
  shows "idle_stage inp w = Inr w"
  using assms by (simp add: idle_stage_def)

lemma idle_stage_result:
  assumes "current_page (state w) = Some p" "sleep_page (state w) = Some sp" "p \<noteq> sp"
    "last_interaction (state w) = Some t"
    "current_time inp - t > sleep_time (state w) * 1000000000"
  shows "idle_stage inp w =
     activate sp (w\<lparr>pages := (pages w)(p := (pages w p)\<lparr>main_group := None\<rparr>),
                    state := (state w)\<lparr>wake_to_page := Some p, current_page := Some sp\<rparr>\<rparr>)"
  using assms by (simp add: idle_stage_def call_on_def deactivate_def Let_def)

lemma idle_stage_sleeps:
  assumes "current_page (state w) = Some p" "sleep_page (state w) = Some sp" "p \<noteq> sp"
    "last_interaction (state w) = Some t"
    "current_time inp - t > sleep_time (state w) * 1000000000"
    "can_activate sp w"
  shows "\<exists>w'. idle_stage inp w = Inr w' \<and> current_page (state w') = Some sp \<and>
     wake_to_page (state w') = Some p \<and> main_group (pages w' p) = None \<and> activated sp w' \<and>
     page_class (pages w' sp) = page_class (pages w sp) \<and>
     (\<forall>q. q \<noteq> sp \<longrightarrow> can_activate q w' = can_activate q w)"
proof -
  let ?w3 = "w\<lparr>pages := (pages w)(p := (pages w p)\<lparr>main_group := None\<rparr>),
               state := (state w)\<lparr>wake_to_page := Some p, current_page := Some sp\<rparr>\<rparr>"
  have can: "can_activate sp ?w3"
    using assms(3,6) by (simp add: can_activate_def)
  obtain w' where w': "activate sp ?w3 = Inr w'"
      "state w' = (state ?w3)\<lparr>led_states :=
         painted (key_settings (pages ?w3 sp)) 12 (led_states (state ?w3))\<rparr>"
      "\<forall>r. r \<noteq> sp \<longrightarrow> pages w' r = pages ?w3 r"
      "page_class (pages w' sp) = page_class (pages ?w3 sp)"
    using activate_ok[OF can] by blast
  have "activated sp w'"
    using can w'(1) by (rule activate_activated)
  moreover have "can_activate q w' = can_activate q w" if "q \<noteq> sp" for q
    using that w'(2,3) by (simp add: can_activate_def)
  moreover have "page_class (pages w' sp) = page_class (pages w sp)"
    using w'(4) assms(3) by simp
  moreover have "main_group (pages w' p) = None"
    using w'(3) assms(3) by simp
  ultimately show ?thesis
    using w'(1,2) idle_stage_result[OF assms(1-5)] by simp
qed

text \<open>
  Claim C1, as amended. When a round reaches the idle check with a current page \<open>p\<close>
  other than the sleep page and more than \<open>sleep_time\<close> seconds (\<open>sleep_time * 10^9\<close> ns)
  have passed since \<open>last_interaction\<close>, the check deactivates \<open>p\<close>, records it as
  \<open>wake_to_page\<close>, makes the sleep page current and activates it; a round without key,
  jog or encoder activity completes with exactly this result. When at most
  \<open>sleep_time\<close> seconds have passed, the check changes nothing.
\<close>

theorem idle_timeout_enters_sleep:
  assumes "current_page (state w) = Some p"
    and "sleep_page (state w) = Some sp"
    and "p \<noteq> sp"
    and "last_interaction (state w) = Some t"
    and "can_activate sp w"
  shows "(current_time inp - t > sleep_time (state w) * 1000000000 \<longrightarrow>
           (\<exists>w'. idle_stage inp w = Inr w' \<and> current_page (state w') = Some sp \<and>
              wake_to_page (state w') = Some p \<and> main_group (pages w' p) = None \<and>
              activated sp w' \<and>
              (quiet inp lv \<longrightarrow> (\<exists>lv'. event_loop_iteration inp (lv, w) = Inr (lv', w'))))) \<and>
         (current_time inp - t \<le> sleep_time (state w) * 1000000000 \<longrightarrow>
           idle_stage inp w = Inr w \<and>
           (quiet inp lv \<longrightarrow> (\<exists>lv'. event_loop_iteration inp (lv, w) = Inr (lv', w))))"
proof (intro conjI impI)
  assume late: "current_time inp - t > sleep_time (state w) * 1000000000"
  obtain w' where w': "idle_stage inp w = Inr w'" "current_page (state w') = Some sp"
      "wake_to_page (state w') = Some p" "main_group (pages w' p) = None" "activated sp w'"
    using idle_stage_sleeps[OF assms(1-4) late assms(5)] by blast
  have "\<exists>lv'. event_loop_iteration inp (lv, w) = Inr (lv', w')" if "quiet inp lv"
    using quiet_forwarding[OF that assms(1)] w'(1) by simp
  with w' show "\<exists>w'. idle_stage inp w = Inr w' \<and> current_page (state w') = Some sp \<and>
      wake_to_page (state w') = Some p \<and> main_group (pages w' p) = None \<and> activated sp w' \<and>
      (quiet inp lv \<longrightarrow> (\<exists>lv'. event_loop_iteration inp (lv, w) = Inr (lv', w')))"
    by blast
next
  assume early: "current_time inp - t \<le> sleep_time (state w) * 1000000000"
  show "idle_stage inp w = Inr w"
    using idle_stage_waits[OF assms(4) early] .
next
  assume early: "current_time inp - t \<le> sleep_time (state w) * 1000000000"
    and q: "quiet inp lv"
  show "\<exists>lv'. event_loop_iteration inp (lv, w) = Inr (lv', w)"
    using quiet_forwarding[OF q assms(1)] idle_stage_waits[OF assms(4) early] by simp
qed

lemma wake_switches:
  assumes "current_page (state w) = Some sp" "wake_to_page (state w) = Some q" "q \<noteq> sp"
    "can_activate q w"
  shows "\<exists>w'. wake sp w = Inr w' \<and> current_page (state w') = Some q \<and>
     main_group (pages w' sp) = None \<and> activated q w'"
proof -
  let ?w2 = "w\<lparr>pages := (pages w)(sp := (pages w sp)\<lparr>main_group := None\<rparr>),
               state := (state w)\<lparr>current_page := Some q\<rparr>\<rparr>"
  have run: "wake sp w = activate q ?w2"
    using assms(1,2) by (simp add: wake_def call_on_def deactivate_def Let_def)
  have can: "can_activate q ?w2"
    using assms(3,4) by (simp add: can_activate_def)
  obtain w' where w': "activate q ?w2 = Inr w'"
      "state w' = (state ?w2)\<lparr>led_states :=
         painted (key_settings (pages ?w2 q)) 12 (led_states (state ?w2))\<rparr>"
      "\<forall>r. r \<noteq> q \<longrightarrow> pages w' r = pages ?w2 r"
    using activate_ok[OF can] by blast
  have "current_page (state w') = Some q"
    using w'(2) by simp
  moreover have "main_group (pages w' sp) = None"
    using w'(3) assms(3) by simp
  moreover have "activated q w'"
    using can w'(1) by (rule activate_activated)
  ultimately show ?thesis
    using run w'(1) by simp
qed

text \<open>
  Claim C2. When the sleep page is current, an encoder press and an encoder rotation of
  any delta both deactivate the sleep page, make \<open>wake_to_page\<close> the current page and
  activate it. Hence a sleep transition followed by either event leaves the page current
  that was current before the transition.
\<close>

theorem wake_restores_page:
  "(current_page (state w) = Some sp \<and> page_class (pages w sp) = SleepPage \<and>
    wake_to_page (state w) = Some q \<and> q \<noteq> sp \<and> can_activate q w \<longrightarrow>
      (\<exists>w'. handle_encoder_press sp True w = Inr w' \<and>
             handle_encoder_event sp d pos w = Inr w' \<and>
             current_page (state w') = Some q \<and> main_group (pages w' sp) = None \<and>
             activated q w')) \<and>
   (current_page (state u) = Some p \<and> sleep_page (state u) = Some sp \<and> p \<noteq> sp \<and>
    page_class (pages u sp) = SleepPage \<and> last_interaction (state u) = Some t \<and>
    current_time inp - t > sleep_time (state u) * 1000000000 \<and>
    can_activate sp u \<and> can_activate p u \<longrightarrow>
      (\<exists>w1 w2. idle_stage inp u = Inr w1 \<and> current_page (state w1) = Some sp \<and>
                handle_encoder_press sp True w1 = Inr w2 \<and>
                handle_encoder_event sp d pos w1 = Inr w2 \<and>
                current_page (state w2) = current_page (state u) \<and> activated p w2))"
proof (intro conjI impI)
  assume a: "current_page (state w) = Some sp \<and> page_class (pages w sp) = SleepPage \<and>
    wake_to_page (state w) = Some q \<and> q \<noteq> sp \<and> can_activate q w"
  then obtain w' where w': "wake sp w = Inr w'" "current_page (state w') = Some q"
      "main_group (pages w' sp) = None" "activated q w'"
    using wake_switches[of w sp q] by blast
  have "handle_encoder_press sp True w = wake sp w" "handle_encoder_event sp d pos w = wake sp w"
    using a by (simp_all add: handle_encoder_press_def SleepPage_handle_encoder_press_def
        handle_encoder_event_def SleepPage_handle_encoder_event_def)
  with w' show "\<exists>w'. handle_encoder_press sp True w = Inr w' \<and>
      handle_encoder_event sp d pos w = Inr w' \<and> current_page (state w') = Some q \<and>
      main_group (pages w' sp) = None \<and> activated q w'"
    by simp
next
  assume a: "current_page (state u) = Some p \<and> sleep_page (state u) = Some sp \<and> p \<noteq> sp \<and>
    page_class (pages u sp) = SleepPage \<and> last_interaction (state u) = Some t \<and>
    current_time inp - t > sleep_time (state u) * 1000000000 \<and>
    can_activate sp u \<and> can_activate p u"
  then obtain w1 where w1: "idle_stage inp u = Inr w1" "current_page (state w1) = Some sp"
      "wake_to_page (state w1) = Some p" "page_class (pages w1 sp) = page_class (pages u sp)"
      "\<forall>q. q \<noteq> sp \<longrightarrow> can_activate q w1 = can_activate q u"
    using idle_stage_sleeps[of u p sp t inp] by blast
  have can: "can_activate p w1"
    using w1(5) a by simp
  obtain w2 where w2: "wake sp w1 = Inr w2" "current_page (state w2) = Some p" "activated p w2"
    using wake_switches[OF w1(2,3) _ can] a by blast
  have "handle_encoder_press sp True w1 = wake sp w1"
      "handle_encoder_event sp d pos w1 = wake sp w1"
    using a w1(4) by (simp_all add: handle_encoder_press_def SleepPage_handle_encoder_press_def
        handle_encoder_event_def SleepPage_handle_encoder_event_def)
  with w1 w2 a show "\<exists>w1 w2. idle_stage inp u = Inr w1 \<and> current_page (state w1) = Some sp \<and>
      handle_encoder_press sp True w1 = Inr w2 \<and> handle_encoder_event sp d pos w1 = Inr w2 \<and>
      current_page (state w2) = current_page (state u) \<and> activated p w2"
    by simp
qed


subsection \<open>The example states\<close>

lemma activated_page_sel [simp]:
  "page_class (activated_page w p) = page_class (pages w p)"
  "key_settings (activated_page w p) = key_settings (pages w p)"
  "title (activated_page w p) = title (pages w p)"
  "main_group (activated_page w p) \<noteq> None"
  by (simp_all add: activated_page_def Let_def split: PageClass.splits)

lemma example_pages [simp]:
  "page_class (jog_dial_page r) = JogDialPage" "selected_axis (jog_dial_page r) = None"
  "length (key_settings (jog_dial_page r)) = 12"
  "length (key_settings job_control_page) = 12"
  "length (key_settings arrow_jog_page) = 12"
  "page_class job_control_page = SimpleButtonPage" "page_class arrow_jog_page = SimpleButtonPage"
  "title job_control_page = Some ''Job Control''"
  by (simp_all add: jog_dial_page_def job_control_page_def arrow_jog_page_def)

lemma loop_start_eq:
  "loop_start =
     (\<lparr>last_jog_pos = 0, last_encoder_pos = 0, encoder_held = False, dispatched = []\<rparr>,
      booted\<lparr>state := (state booted)\<lparr>last_interaction := Some 0\<rparr>\<rparr>)"
  by (simp add: loop_start_def event_loop_begin_def)

lemma started_state:
  "current_page (state (snd loop_start)) = Some 2" "sleep_page (state (snd loop_start)) = Some 0"
  "selection_page (state (snd loop_start)) = Some 1"
  "previous_page (state (snd loop_start)) = None"
  "wake_to_page (state (snd loop_start)) = None"
  "page_stack (state (snd loop_start)) = [2, 3, 4, 5, 6]"
  "sleep_time (state (snd loop_start)) = 900"
  "last_interaction (state (snd loop_start)) = Some 0"
  "length (led_states (state (snd loop_start))) = 12"
  "keyboard (snd loop_start) = []"
  by (simp_all add: loop_start_eq booted_eq OverallState_init_def)

lemma started_pages:
  "pages (snd loop_start) 0 = Page_init SleepPage None"
  "pages (snd loop_start) (Suc 0) = Page_init SelectionPage (Some ''Selection'')"
  "page_class (pages (snd loop_start) 2) = SimpleButtonPage"
  "key_settings (pages (snd loop_start) 2) = key_settings job_control_page"
  "title (pages (snd loop_start) 2) = Some ''Job Control''"
  "pages (snd loop_start) 3 = arrow_jog_page"
  "pages (snd loop_start) 4 = jog_dial_page 4"
  by (simp_all add: loop_start_eq booted_eq)

lemma started_loop_vars:
  "fst loop_start =
     \<lparr>last_jog_pos = 0, last_encoder_pos = 0, encoder_held = False, dispatched = []\<rparr>"
  by (simp add: loop_start_eq)

lemma started_can_activate:
  "can_activate 0 (snd loop_start)" "can_activate 2 (snd loop_start)"
  "can_activate 4 (snd loop_start)"
  by (simp_all add: can_activate_def started_state started_pages)

lemma x_selected_eq:
  "select_axis 4 0 (snd loop_start) = Inr x_selected"
  "page_class (pages x_selected 4) = JogDialPage"
  "selected_axis (pages x_selected 4) = Some 0"
  "can_activate 4 x_selected"
  by (simp_all add: x_selected_def select_axis_result started_state started_pages Let_def
      can_activate_def)

lemma picking_eq:
  "handle_encoder_press 2 True (snd loop_start) = Inr picking"
  "current_page (state picking) = Some 1" "selection_page (state picking) = Some 1"
  "sleep_page (state picking) = Some 0"
  "page_stack (state picking) = [2, 3, 4, 5, 6]"
  "page_class (pages picking 1) = SelectionPage"
  "selected_page (pages picking 1) = Some 2"
  "selection (pages picking 1) = Some (Label (Some ''Job Control''))"
  "can_activate 2 picking"
  by (simp_all add: picking_def handle_encoder_press_def DisplayPage_handle_encoder_press_def
      call_on_def deactivate_def Let_def activate_result can_activate_def activated_page_def
      started_state started_pages)

lemma late_reading: "current_time (idle_reading 900000000001) - 0
   > sleep_time (state (snd loop_start)) * 1000000000"
  by (simp add: idle_reading_def reading_def started_state)

lemma asleep_eq:
  "idle_stage (idle_reading 900000000001) (snd loop_start) = Inr asleep"
  "current_page (state asleep) = Some 0" "wake_to_page (state asleep) = Some 2"
  "page_class (pages asleep 0) = SleepPage" "can_activate 2 asleep"
  by (simp_all add: asleep_def
      idle_stage_result[OF started_state(1) started_state(2) _ started_state(8) late_reading]
      activate_result can_activate_def started_state started_pages)

lemma quiet_idle_reading: "quiet (idle_reading now) (fst loop_start)"
  by (simp add: quiet_def idle_reading_def reading_def started_loop_vars)

text \<open>
  The idle timeout on the started system: a round without activity 900 s and 1 ns after
  the last interaction puts the first page (2) to sleep.
\<close>

theorem idle_timeout_enters_sleep_witness:
  "\<exists>w'. idle_stage (idle_reading 900000000001) (snd loop_start) = Inr w' \<and>
         current_page (state w') = Some 0 \<and> wake_to_page (state w') = Some 2 \<and>
         main_group (pages w' 2) = None \<and> activated 0 w' \<and>
         (\<exists>lv'. event_loop_iteration (idle_reading 900000000001) loop_start = Inr (lv', w'))"
proof -
  have ne: "(2::nat) \<noteq> 0" by simp
  from idle_timeout_enters_sleep[OF started_state(1) started_state(2) ne started_state(8)
      started_can_activate(1), of "idle_reading 900000000001" "fst loop_start"]
    late_reading quiet_idle_reading
  show ?thesis by simp
qed

text \<open>
  Claim C1 as stated ("at least \<open>sleep_time\<close> seconds") fails at exactly 900 s: the
  current page is not the sleep page, the elapsed time equals \<open>sleep_time\<close>, and the
  round leaves the system as it was, the first page still current.
\<close>

theorem idle_timeout_at_sleep_time_counterexample:
  "current_page (state (snd loop_start)) = Some 2 \<and>
   sleep_page (state (snd loop_start)) = Some 0 \<and>
   last_interaction (state (snd loop_start)) = Some 0 \<and>
   sleep_time (state (snd loop_start)) = 900 \<and>
   current_time (idle_reading 900000000000) - 0 \<ge> 900 * 1000000000 \<and>
   event_loop_iteration (idle_reading 900000000000) loop_start =
     Inr ((logged (Handle_encoder_press False) (fst loop_start))\<lparr>encoder_held := False\<rparr>,
          snd loop_start)"
proof -
  have "idle_stage (idle_reading 900000000000) (snd loop_start) = Inr (snd loop_start)"
    by (rule idle_stage_waits[OF started_state(8)])
      (simp add: idle_reading_def reading_def started_state)
  then have "event_loop_iteration (idle_reading 900000000000) (fst loop_start, snd loop_start) =
      Inr ((logged (Handle_encoder_press False) (fst loop_start))\<lparr>encoder_held := False\<rparr>,
           snd loop_start)"
    using quiet_forwarding[OF quiet_idle_reading started_state(1), of 900000000000]
    by (simp add: idle_reading_def reading_def)
  then show ?thesis
    by (simp add: started_state idle_reading_def reading_def)
qed

text \<open>
  Waking the system that the idle timeout put to sleep, and the round trip from the
  started system.
\<close>

theorem wake_restores_page_witness:
  "(\<exists>w'. handle_encoder_press 0 True asleep = Inr w' \<and>
          handle_encoder_event 0 1 1 asleep = Inr w' \<and>
          current_page (state w') = Some 2 \<and> main_group (pages w' 0) = None \<and>
          activated 2 w') \<and>
   (\<exists>w1 w2. idle_stage (idle_reading 900000000001) (snd loop_start) = Inr w1 \<and>
             current_page (state w1) = Some 0 \<and>
             handle_encoder_press 0 True w1 = Inr w2 \<and>
             handle_encoder_event 0 1 1 w1 = Inr w2 \<and>
             current_page (state w2) = current_page (state (snd loop_start)) \<and>
             activated 2 w2)"
proof -
  have ne: "(2::nat) \<noteq> 0" by simp
  from wake_restores_page[of asleep 0 2 1 1 "snd loop_start" 2 0 "idle_reading 900000000001"]
    asleep_eq started_state started_can_activate late_reading started_pages(1) ne
  show ?thesis by simp
qed


text \<open>
  On the selection page opened from the first of the five pages (position 0), a delta of
  \<open>-1\<close> wraps to the last page (6, at position 4) and a delta of \<open>5\<close> moves one position,
  to page 3.
\<close>

theorem selection_rotation_moves_one_index_witness:
  "(\<exists>w'. handle_encoder_event 1 (- 1) (- 1) picking = Inr w' \<and>
          selected_page (pages w' 1) = Some 6 \<and>
          selection (pages w' 1) = Some (Label (title (pages w' 6))) \<and>
          state w' = state picking \<and> list_index (page_stack (state w')) 6 = Some 4) \<and>
   (\<exists>w'. handle_encoder_event 1 5 5 picking = Inr w' \<and>
          selected_page (pages w' 1) = Some 3 \<and>
          selection (pages w' 1) = Some (Label (title (pages w' 3))) \<and>
          state w' = state picking \<and> list_index (page_stack (state w')) 3 = Some 1)"
proof -
  have idx: "list_index (page_stack (state picking)) 2 = Some 0"
    by (simp add: picking_eq)
  have sel: "selection (pages picking 1) \<noteq> None"
    using picking_eq(8) by simp
  have bwd: "(- 1 :: int) \<noteq> 0" and fwd: "(5 :: int) \<noteq> 0"
    by simp_all
  from selection_rotation_moves_one_index[OF picking_eq(6) picking_eq(7) idx sel bwd, of "- 1"]
    selection_rotation_moves_one_index[OF picking_eq(6) picking_eq(7) idx sel fwd, of 5]
  show ?thesis
    using picking_eq(5) by (simp add: Let_def)
qed

text \<open>
  Pressing the encoder on the selection page just opened returns to the first page.
\<close>

theorem selection_press_commits_pick_witness:
  "\<exists>w'. handle_encoder_press 1 True picking = Inr w' \<and> current_page (state w') = Some 2 \<and>
         main_group (pages w' 1) = None \<and> activated 2 w'"
proof -
  have ne: "(2::nat) \<noteq> 1" by simp
  show ?thesis
    by (rule selection_press_commits_pick[OF picking_eq(2) picking_eq(3) picking_eq(6)
          picking_eq(7) ne picking_eq(9)])
qed

lemma idle_tick:
  assumes "now \<le> 900000000000"
  shows "event_loop_iteration (idle_reading now) loop_start =
     Inr ((logged (Handle_encoder_press False) (fst loop_start))\<lparr>encoder_held := False\<rparr>,
          snd loop_start)"
proof -
  have "idle_stage (idle_reading now) (snd loop_start) = Inr (snd loop_start)"
    using assms
    by (intro idle_stage_waits[OF started_state(8)])
      (simp add: idle_reading_def reading_def started_state)
  then have "event_loop_iteration (idle_reading now) (fst loop_start, snd loop_start) =
      Inr ((logged (Handle_encoder_press False) (fst loop_start))\<lparr>encoder_held := False\<rparr>,
           snd loop_start)"
    using quiet_forwarding[OF quiet_idle_reading started_state(1), of now]
    by (simp add: idle_reading_def reading_def)
  then show ?thesis by simp
qed

text \<open>
  Claim C5 as stated fails in the first round of the started loop: the switch reads not
  pressed, the held flag is clear, so the two agree, and the round calls
  \<^verbatim>\<open>handle_encoder_press(False)\<close>.
\<close>

theorem release_is_called_every_tick_counterexample:
  "switch_pressed (idle_reading 1) = encoder_held (fst loop_start) \<and>
   event_loop_iteration (idle_reading 1) loop_start =
     Inr ((logged (Handle_encoder_press False) (fst loop_start))\<lparr>encoder_held := False\<rparr>,
          snd loop_start) \<and>
   dispatched ((logged (Handle_encoder_press False) (fst loop_start))\<lparr>encoder_held := False\<rparr>) =
     dispatched (fst loop_start) @ [Handle_encoder_press False]"
  using idle_tick[of 1]
  by (simp add: idle_reading_def reading_def started_loop_vars)

text \<open>
  A round with the switch held down and the flag set calls nothing; the first round of
  the started loop, switch up, logs the one call with \<open>False\<close>.
\<close>

theorem encoder_press_is_edge_triggered_release_is_not_witness:
  "encoder_switch_stage (reading 1 True None 0 0)
     ((fst loop_start)\<lparr>encoder_held := True\<rparr>, snd loop_start) =
     Inr ((fst loop_start)\<lparr>encoder_held := True\<rparr>, snd loop_start) \<and>
   (\<exists>cs. dispatched ((logged (Handle_encoder_press False) (fst loop_start))
                      \<lparr>encoder_held := False\<rparr>) = dispatched (fst loop_start) @ cs \<and>
         encoder_press_calls cs = [False])"
  using encoder_press_is_edge_triggered_release_is_not[of "reading 1 True None 0 0"
      "(fst loop_start)\<lparr>encoder_held := True\<rparr>" "snd loop_start"]
    encoder_press_is_edge_triggered_release_is_not[of "idle_reading 1" "fst loop_start"
      "snd loop_start"] idle_tick[of 1]
  by (simp add: reading_def idle_reading_def)

lemma slot3_is_unbound:
  "key_settings job_control_page ! 3 = KeySettings_init [] (255, 255, 255) (0, 0, 0) NONE"
  by (simp add: job_control_page_def configured_def job_keys_def Page_init_def)

lemma started_led3:
  "led_states (state (snd loop_start)) ! 3 =
     \<lparr>on_color = (255, 255, 255), off_color = (0, 0, 0), mode = OFF, interval = 1 / 10,
      event = True\<rparr>"
  by (simp add: loop_start_eq booted_eq OverallState_init_def painted_nth slot3_is_unbound
      KeySettings_init_def LedState_init_def set_mode_def set_on_color_def set_off_color_def)

text \<open>
  Slot 3 of the first page has trigger mode NONE and no callbacks.
\<close>

theorem none_slot_ignores_press_only_witness:
  "handle_key_event 2 (KeyEvent 3 True) (snd loop_start) = Inr (snd loop_start) \<and>
   handle_key_event 2 (KeyEvent 3 False) (snd loop_start) =
     Inr ((snd loop_start)\<lparr>state := (state (snd loop_start))\<lparr>led_states :=
            (led_states (state (snd loop_start)))
              [3 := set_mode OFF (led_states (state (snd loop_start)) ! 3)]\<rparr>\<rparr>)"
  using none_slot_ignores_press_only[of 3 "snd loop_start" 2]
  by (simp add: started_state started_pages slot3_is_unbound KeySettings_init_def)

text \<open>
  Claim C6 as stated fails on a release. On slot 3 of the first page (mode NONE), once the
  LED task has consumed the LED's event, a release raises the event again: the LedState
  changes. With a release callback bound to that slot, the release calls it: the keyboard
  receives \<^verbatim>\<open>release_all\<close>.
\<close>

theorem none_slot_release_counterexample:
  "ks_mode (key_settings (pages led3_rendered 2) ! 3) = NONE \<and>
   \<not> event (led_states (state led3_rendered) ! 3) \<and>
   handle_key_event 2 (KeyEvent 3 False) led3_rendered = Inr (snd loop_start) \<and>
   event (led_states (state (snd loop_start)) ! 3) \<and>
   ks_mode (key_settings (pages release_bound 2) ! 3) = NONE \<and>
   keyboard release_bound = [] \<and>
   map_sum id keyboard (handle_key_event 2 (KeyEvent 3 False) release_bound) =
     Inr [Keyboard_release_all]"
proof -
  have a: "handle_key_event 2 (KeyEvent 3 False) led3_rendered = Inr (snd loop_start)"
    by (auto simp add: led3_rendered_def handle_key_event_def key_setting_def with_led_def
        call_if_bound_def started_state started_pages slot3_is_unbound KeySettings_init_def
        started_led3 led_task_clear_def set_mode_def list_update_same_conv
        intro!: System.equality OverallState.equality)
  have b: "handle_key_event 2 (KeyEvent 3 False) release_bound =
      Inr (release_bound\<lparr>keyboard := [Keyboard_release_all],
             state := (state release_bound)\<lparr>led_states :=
               (led_states (state release_bound))
                 [3 := set_mode OFF (led_states (state release_bound) ! 3)]\<rparr>\<rparr>)"
    by (simp add: release_bound_def handle_key_event_def key_setting_def with_led_def
        call_if_bound_def started_state started_pages KeySettings_init_def)
  show ?thesis
    unfolding a b
    by (simp add: led3_rendered_def release_bound_def started_state started_pages
        slot3_is_unbound KeySettings_init_def started_led3 led_task_clear_def)
qed


text \<open>
  Three steps backwards with the X axis selected send SHIFT + LEFT_ARROW three times;
  with no axis selected they send nothing.
\<close>

theorem jog_rotation_sends_one_action_per_unit_witness:
  "selected_axis (pages x_selected 4) = Some 0 \<and>
   handle_jog_event 4 (- 3) (- 3) x_selected =
     Inr (x_selected\<lparr>keyboard := keyboard x_selected @
            replicate 3 (Keyboard_send [Keycode_SHIFT, Keycode_LEFT_ARROW])\<rparr>) \<and>
   selected_axis (pages (snd loop_start) 4) = None \<and>
   handle_jog_event 4 (- 3) (- 3) (snd loop_start) = Inr (snd loop_start)"
  using jog_rotation_sends_one_action_per_unit[OF x_selected_eq(2), of "- 3" "- 3"]
    jog_rotation_sends_one_action_per_unit[of "snd loop_start" 4 "- 3" "- 3"]
    x_selected_eq(3)
  by (simp add: started_pages direction_key_def)

text \<open>
  Selecting X, then Y, then Y again on the jog-dial page of the started system.
\<close>

theorem select_axis_is_exclusive_toggle_witness:
  "\<exists>w1 w2. select_axes 4 [0, 1] (snd loop_start) = Inr w1 \<and> select_axis 4 1 w1 = Inr w2 \<and>
           select_axes 4 ([0, 1] @ [1]) (snd loop_start) = Inr w2 \<and>
           selected_axis (pages w1 4) \<in> {None, Some 0, Some 1, Some 2} \<and>
           selected_axis (pages w2 4) =
             (if selected_axis (pages w1 4) = Some 1 then None else Some 1) \<and>
           (\<forall>k\<in>{0, 1, 2}. off_color (led_states (state w2) ! nat (9 + k)) =
                            (if selected_axis (pages w2 4) = Some k
                             then (255, 0, 20) else (0, 32, 32)))"
proof -
  have "12 \<le> length (led_states (state (snd loop_start)))"
    by (simp add: started_state)
  moreover have "set [0, 1] \<subseteq> {0, 1, 2 :: int}" and "(1 :: int) \<in> {0, 1, 2}"
    by simp_all
  moreover have "selected_axis (pages (snd loop_start) 4) \<in> {None, Some 0, Some 1, Some 2}"
    by (simp add: started_pages)
  ultimately show ?thesis
    by (rule select_axis_is_exclusive_toggle)
qed

text \<open>
  Activating the jog-dial page while the X axis is selected.
\<close>

theorem jog_dial_activation_clears_axis_witness:
  "selected_axis (pages x_selected 4) = Some 0 \<and>
   (\<exists>w'. activate 4 x_selected = Inr w' \<and> selected_axis (pages w' 4) = None \<and>
          (\<forall>d pos. handle_jog_event 4 d pos w' = Inr w'))"
  using jog_dial_activation_clears_axis[OF x_selected_eq(2) x_selected_eq(4)] x_selected_eq(3)
  by simp

end
